theory Spec2Isabelle
  imports Main
begin

section \<open>Strings, decimal numbers and POSIX paths\<close>

text \<open>
  The backend exists in two deployments: a flat-file one (\<open>index.js\<close>, and the same image
  routes in the second server file) that keeps the metadata in the object \<open>imageData\<close> and the
  blobs in the directory \<open>uploads\<close>, and a durable one that keeps the metadata in a MongoDB
  collection and the blobs in Cloudinary. Both are modelled below, each handler as a function
  from the state before the request to the response and the state after it.
\<close>

definition startsWith :: "string \<Rightarrow> string \<Rightarrow> bool" where
  \<comment> \<open>\<open>s.startsWith(p)\<close>\<close>
  "startsWith s p = (take (length p) s = p)"

definition digit_char :: "nat \<Rightarrow> char" where
  "digit_char d =
     (if d = 0 then CHR ''0'' else if d = 1 then CHR ''1'' else if d = 2 then CHR ''2''
      else if d = 3 then CHR ''3'' else if d = 4 then CHR ''4'' else if d = 5 then CHR ''5''
      else if d = 6 then CHR ''6'' else if d = 7 then CHR ''7'' else if d = 8 then CHR ''8''
      else CHR ''9'')"

fun show_nat :: "nat \<Rightarrow> string" where
  \<comment> \<open>the decimal rendering of a non-negative integer, as string concatenation produces it\<close>
  "show_nat n = (if n < 10 then [digit_char n] else show_nat (n div 10) @ [digit_char (n mod 10)])"

declare show_nat.simps [simp del]

definition is_digit :: "char \<Rightarrow> bool" where
  "is_digit c = (c \<in> set ''0123456789'')"

definition digit_val :: "char \<Rightarrow> nat" where
  "digit_val c = of_char c - 48"

definition dec_value :: "string \<Rightarrow> nat" where
  "dec_value s = foldl (\<lambda>n c. 10 * n + digit_val c) 0 s"

definition is_array_index :: "string \<Rightarrow> bool" where
  \<comment> \<open>ECMAScript array index: a canonical numeric string whose value is below \<open>2^32 - 1\<close>\<close>
  "is_array_index s =
     (if s = [] then False
      else if \<not> list_all is_digit s then False
      else if hd s = CHR ''0'' \<and> s \<noteq> ''0'' then False
      else dec_value s < 2 ^ 32 - 1)"

definition basename :: "string \<Rightarrow> string" where
  \<comment> \<open>\<open>path.basename\<close> (POSIX): trailing separators are dropped, then the part after the
      last remaining separator is returned\<close>
  "basename p =
     rev (takeWhile (\<lambda>c. c \<noteq> CHR ''/'') (dropWhile (\<lambda>c. c = CHR ''/'') (rev p)))"

definition extname :: "string \<Rightarrow> string" where
  \<comment> \<open>\<open>path.extname\<close> (POSIX): from the last dot of the last segment, empty when that
      segment has no dot, starts with its only dot, or is \<open>..\<close>\<close>
  "extname p =
     (let b = basename p; ext = rev (takeWhile (\<lambda>c. c \<noteq> CHR ''.'') (rev b))
      in if CHR ''.'' \<notin> set b then []
         else if length b = Suc (length ext) then []
         else if b = ''..'' then []
         else CHR ''.'' # ext)"

type_synonym path = "string list"
  \<comment> \<open>an absolute path in normal form, as the list of its segments below the root\<close>

fun split_slash :: "string \<Rightarrow> string list" where
  "split_slash [] = [[]]"
| "split_slash (c # cs) =
     (if c = CHR ''/'' then [] # split_slash cs
      else (case split_slash cs of [] \<Rightarrow> [[c]] | s # ss \<Rightarrow> (c # s) # ss))"

fun normalize :: "string list \<Rightarrow> string list \<Rightarrow> path" where
  \<comment> \<open>\<open>path.normalize\<close> on an absolute path; the first argument is the reversed result so far\<close>
  "normalize acc [] = rev acc"
| "normalize acc (s # ss) =
     (if s = [] \<or> s = ''.'' then normalize acc ss
      else if s = ''..'' then normalize (tl acc) ss
      else normalize (s # acc) ss)"

definition path_join :: "path \<Rightarrow> string list \<Rightarrow> path" where
  \<comment> \<open>\<open>path.join(dir, ...parts)\<close> for an absolute \<open>dir\<close>\<close>
  "path_join dir parts = normalize [] (dir @ concat (map split_slash parts))"

section \<open>Image records and plain JavaScript objects\<close>

record image_record =
  url :: string
  publicId :: "string option"
  originalName :: string
  size_bytes :: nat
  mimetype :: string
  uploadedAt :: nat

text \<open>
  \<open>publicId\<close> is absent in the flat-file deployment; \<open>uploadedAt\<close> is the time value of the
  \<open>Date\<close> whose ISO rendering is stored.
\<close>

datatype jsval =
    Undefined
  | Str string
  | Num nat
  | Time nat
  | Obj image_record
  | Builtin string

text \<open>
  \<open>Builtin n\<close> is the member \<open>n\<close> that every plain object inherits from \<open>Object.prototype\<close>
  (a function, or for \<open>__proto__\<close> the prototype object itself).
\<close>

definition truthy :: "jsval \<Rightarrow> bool" where
  "truthy v = (case v of Undefined \<Rightarrow> False | Str s \<Rightarrow> s \<noteq> [] | Num n \<Rightarrow> n \<noteq> 0
                | Time t \<Rightarrow> True | Obj r \<Rightarrow> True | Builtin n \<Rightarrow> True)"

definition object_prototype_names :: "string list" where
  "object_prototype_names =
     [''constructor'', ''__defineGetter__'', ''__defineSetter__'', ''hasOwnProperty'',
      ''__lookupGetter__'', ''__lookupSetter__'', ''isPrototypeOf'', ''propertyIsEnumerable'',
      ''toString'', ''valueOf'', ''__proto__'', ''toLocaleString'']"

record js_object =
  own :: "(string \<times> image_record) list"
  proto :: "image_record option"

text \<open>
  \<open>own\<close> lists the own enumerable properties in the order in which \<open>JSON.stringify\<close> and
  \<open>for-in\<close> visit them: array-index keys ascending, then the other keys in creation order.
  \<open>proto\<close> is the object installed as prototype by an assignment to \<open>__proto__\<close>;
  \<open>None\<close> stands for \<open>Object.prototype\<close>.
\<close>

definition empty_object :: js_object where
  \<comment> \<open>the object literal \<open>{}\<close>\<close>
  "empty_object = \<lparr>own = [], proto = None\<rparr>"

definition record_field :: "image_record \<Rightarrow> string \<Rightarrow> jsval" where
  "record_field r k =
     (if k = ''url'' then Str (url r)
      else if k = ''publicId'' then (case publicId r of None \<Rightarrow> Undefined | Some p \<Rightarrow> Str p)
      else if k = ''originalName'' then Str (originalName r)
      else if k = ''size'' then Num (size_bytes r)
      else if k = ''mimetype'' then Str (mimetype r)
      else if k = ''uploadedAt'' then Time (uploadedAt r)
      else Undefined)"

definition object_prototype_get :: "string \<Rightarrow> jsval" where
  "object_prototype_get k = (if k \<in> set object_prototype_names then Builtin k else Undefined)"

definition js_get :: "js_object \<Rightarrow> string \<Rightarrow> jsval" where
  \<comment> \<open>\<open>obj[k]\<close>: own property, else along the prototype chain\<close>
  "js_get obj k =
     (case map_of (own obj) k of
        Some r \<Rightarrow> Obj r
      | None \<Rightarrow>
          (case proto obj of
             None \<Rightarrow> object_prototype_get k
           | Some p \<Rightarrow>
               if k = ''__proto__'' then Obj p
               else (case record_field p k of
                       Undefined \<Rightarrow> object_prototype_get k
                     | v \<Rightarrow> v)))"

fun insert_index :: "string \<Rightarrow> image_record \<Rightarrow> (string \<times> image_record) list
                     \<Rightarrow> (string \<times> image_record) list" where
  "insert_index k v [] = [(k, v)]"
| "insert_index k v (kv # kvs) =
     (if is_array_index (fst kv) \<and> dec_value (fst kv) < dec_value k
      then kv # insert_index k v kvs
      else (k, v) # kv # kvs)"

fun replace_own :: "string \<Rightarrow> image_record \<Rightarrow> (string \<times> image_record) list
                     \<Rightarrow> (string \<times> image_record) list" where
  "replace_own k v [] = []"
| "replace_own k v (kv # kvs) =
     (if fst kv = k then (k, v) # kvs else kv # replace_own k v kvs)"

definition js_set :: "js_object \<Rightarrow> string \<Rightarrow> image_record \<Rightarrow> js_object" where
  \<comment> \<open>\<open>obj[k] = v\<close> for an object value \<open>v\<close>: an own property is overwritten in place; the
      inherited accessor \<open>__proto__\<close> replaces the prototype and creates no property; any
      other key becomes a new own property\<close>
  "js_set obj k v =
     (if map_of (own obj) k \<noteq> None then obj\<lparr>own := replace_own k v (own obj)\<rparr>
      else if k = ''__proto__'' then obj\<lparr>proto := Some v\<rparr>
      else if is_array_index k then obj\<lparr>own := insert_index k v (own obj)\<rparr>
      else obj\<lparr>own := own obj @ [(k, v)]\<rparr>)"

definition js_delete :: "js_object \<Rightarrow> string \<Rightarrow> js_object" where
  \<comment> \<open>\<open>delete obj[k]\<close>: removes an own property, nothing else\<close>
  "js_delete obj k = obj\<lparr>own := filter (\<lambda>kv. fst kv \<noteq> k) (own obj)\<rparr>"

section \<open>Requests, responses and the environment\<close>

record upload_file =
  file_originalname :: string
  file_mimetype :: string
  file_content :: string

text \<open>The multipart part sent in the field \<open>image\<close>; \<open>file.size\<close> is the length of its content.\<close>

record upload_request =
  file_part :: "upload_file option"
  imageKey_field :: "string option"

text \<open>
  An upload request: a multipart form with at most one file part, sent in the field \<open>image\<close>,
  and the text field \<open>imageKey\<close>, which is a string when present.
\<close>

record multer_file =
  mf_filename :: string
  mf_path :: string
  mf_originalname :: string
  mf_size :: nat
  mf_mimetype :: string

text \<open>
  \<open>multer_file\<close> is \<open>req.file\<close> as the storage engine leaves it: \<open>filename\<close> and \<open>path\<close> are
  the stored name and location (for Cloudinary: the public id and the URL).
\<close>

record env =
  now :: nat
  rand :: nat
  disk_write_fails :: bool
  json_write_fails :: bool
  cloudinary_upload :: "(string \<times> string) option"
  cloudinary_destroy_fails :: bool
  db_read_fails :: bool
  db_write_fails :: bool

text \<open>
  What each request reads from outside the program: the clock, \<open>Math.round(Math.random() * 1e9)\<close>,
  whether a write to disk fails, the URL and public id Cloudinary answers an upload with
  (\<open>None\<close> when the upload is refused), and whether a call to Cloudinary or MongoDB rejects.
\<close>

datatype fs_errno = ENOENT | EISDIR | EACCES | ENOTDIR | EIO | EINVAL

datatype js_error =
    FilterError string
  | MulterError string
  | FsError fs_errno
  | TypeError string
  | ServiceError string

datatype body =
    ErrorBody string
  | UploadBody string string
  | UploadDocBody string string string "string \<times> image_record"
  | ListBody "(string \<times> image_record) list"
  | ValueBody jsval
  | SuccessBody string
  | AuthFailBody string
  | AuthErrorBody string js_error

datatype response =
    Resp nat body
  | Unhandled js_error

text \<open>
  \<open>Resp code body\<close> is \<open>res.status(code).json(body)\<close>. \<open>Unhandled err\<close> is an error that
  leaves the program: passed to \<open>next\<close> by the upload middleware, or thrown out of a handler
  that has no \<open>try\<close>. No error-handling middleware is registered, so the framework's default
  handler answers it, with status 500 for an error that carries no status of its own.
\<close>

fun http_status :: "response \<Rightarrow> nat" where
  "http_status (Resp code b) = code"
| "http_status (Unhandled err) = 500"

datatype call =
    FsMkdir path
  | FsWrite path
  | FsExists path
  | FsUnlink path
  | FsSaveJson
  | CloudUpload string
  | CloudDestroy string
  | DbFindOneAndUpdate string
  | DbFind
  | DbFindOne string
  | DbDeleteOne string

definition js_falsy :: "string option \<Rightarrow> bool" where
  \<comment> \<open>\<open>!x\<close> for a value that is a string or undefined\<close>
  "js_falsy k = (case k of None \<Rightarrow> True | Some s \<Rightarrow> s = [])"

definition fileFilter :: "upload_file \<Rightarrow> bool" where
  "fileFilter f = startsWith (file_mimetype f) ''image/''"

section \<open>The flat-file deployment\<close>

datatype fs_node = Directory | RegularFile string

record flat_state =
  dirname :: path
  imageData :: js_object
  nodes :: "(path \<times> fs_node) list"
  unlink_denied :: "path list"
  json_file :: "(string \<times> image_record) list option"
  fs_log :: "call list"

text \<open>
  \<open>nodes\<close> is the file system, \<open>unlink_denied\<close> the files the process may not remove,
  \<open>json_file\<close> the decoded content of \<open>imageData.json\<close>, \<open>fs_log\<close> the calls made to the
  file system so far.
\<close>

definition valid_path :: "path \<Rightarrow> bool" where
  \<comment> \<open>the \<open>fs\<close> functions refuse a path that contains a null byte\<close>
  "valid_path p = list_all (\<lambda>seg. CHR 0x00 \<notin> set seg) p"

definition render_path :: "path \<Rightarrow> string" where
  "render_path p = concat (map (\<lambda>seg. CHR ''/'' # seg) p)"

definition fs_put :: "path \<Rightarrow> fs_node \<Rightarrow> (path \<times> fs_node) list \<Rightarrow> (path \<times> fs_node) list" where
  "fs_put p n ns = (p, n) # filter (\<lambda>pn. fst pn \<noteq> p) ns"

definition fs_remove :: "path \<Rightarrow> (path \<times> fs_node) list \<Rightarrow> (path \<times> fs_node) list" where
  "fs_remove p ns = filter (\<lambda>pn. fst pn \<noteq> p) ns"

definition existsSync :: "flat_state \<Rightarrow> path \<Rightarrow> bool" where
  "existsSync s p = (valid_path p \<and> map_of (nodes s) p \<noteq> None)"

definition unlinkSync :: "flat_state \<Rightarrow> path \<Rightarrow> fs_errno + flat_state" where
  "unlinkSync s p =
     (if \<not> valid_path p then Inl EINVAL
      else case map_of (nodes s) p of
             None \<Rightarrow> Inl ENOENT
           | Some Directory \<Rightarrow> Inl EISDIR
           | Some (RegularFile c) \<Rightarrow>
               if p \<in> set (unlink_denied s) then Inl EACCES
               else Inr (s\<lparr>nodes := fs_remove p (nodes s)\<rparr>))"

definition file_size_limit :: nat where
  "file_size_limit = 5 * 1024 * 1024"

definition disk_destination :: "flat_state \<Rightarrow> path \<times> flat_state" where
  \<comment> \<open>\<open>destination\<close> of the disk storage: creates \<open>uploads\<close> when nothing is there\<close>
  "disk_destination s =
     (let uploadDir = path_join (dirname s) [''uploads''];
          s1 = s\<lparr>fs_log := fs_log s @ [FsExists uploadDir]\<rparr>
      in if existsSync s1 uploadDir then (uploadDir, s1)
         else (uploadDir, s1\<lparr>nodes := fs_put uploadDir Directory (nodes s1),
                               fs_log := fs_log s1 @ [FsMkdir uploadDir]\<rparr>))"

definition disk_filename :: "env \<Rightarrow> upload_file \<Rightarrow> string" where
  \<comment> \<open>\<open>file.fieldname + "-" + Date.now() + "-" + random + ext\<close>\<close>
  "disk_filename e f =
     ''image'' @ ''-'' @ show_nat (now e) @ ''-'' @ show_nat (rand e)
       @ extname (file_originalname f)"

definition multer_disk :: "env \<Rightarrow> flat_state \<Rightarrow> upload_request
                            \<Rightarrow> (js_error + multer_file option) \<times> flat_state" where
  \<comment> \<open>\<open>upload.single("image")\<close>: the filter, then the storage engine, both before the handler.
      A file over the limit is written and removed again by the middleware.\<close>
  "multer_disk e s rq =
     (case file_part rq of
        None \<Rightarrow> (Inr None, s)
      | Some f \<Rightarrow>
          if \<not> fileFilter f then (Inl (FilterError ''Only image files are allowed!''), s)
          else
            let (uploadDir, s1) = disk_destination s;
                name = disk_filename e f;
                target = path_join uploadDir [name];
                s2 = s1\<lparr>fs_log := fs_log s1 @ [FsWrite target]\<rparr>
            in if \<not> valid_path target then (Inl (FsError EINVAL), s2)
               else if map_of (nodes s2) uploadDir \<noteq> Some Directory
                 then (Inl (FsError ENOTDIR), s2)
               else if map_of (nodes s2) target = Some Directory
                 then (Inl (FsError EISDIR), s2)
               else if disk_write_fails e then (Inl (FsError EIO), s2)
               else if file_size_limit < length (file_content f)
                 then (Inl (MulterError ''File too large''),
                       s2\<lparr>nodes := fs_remove target (nodes s2),
                          fs_log := fs_log s2 @ [FsUnlink target]\<rparr>)
               else (Inr (Some \<lparr>mf_filename = name, mf_path = render_path target,
                                 mf_originalname = file_originalname f,
                                 mf_size = length (file_content f),
                                 mf_mimetype = file_mimetype f\<rparr>),
                     s2\<lparr>nodes := fs_put target (RegularFile (file_content f)) (nodes s2)\<rparr>))"

definition saveImageData :: "env \<Rightarrow> flat_state \<Rightarrow> fs_errno + flat_state" where
  \<comment> \<open>\<open>fs.writeFileSync(imageData.json, JSON.stringify(imageData))\<close>\<close>
  "saveImageData e s =
     (if json_write_fails e then Inl EIO
      else Inr (s\<lparr>json_file := Some (own (imageData s)),
                  fs_log := fs_log s @ [FsSaveJson]\<rparr>))"

definition upload_handler :: "env \<Rightarrow> flat_state \<Rightarrow> multer_file option \<Rightarrow> string option
                               \<Rightarrow> response \<times> flat_state" where
  "upload_handler e s file key =
     (case file of
        None \<Rightarrow> (Resp 400 (ErrorBody ''No file uploaded''), s)
      | Some f \<Rightarrow>
          if js_falsy key then (Resp 400 (ErrorBody ''Image key is required''), s)
          else
            let imageKey = (case key of None \<Rightarrow> [] | Some k \<Rightarrow> k);
                s1 = s\<lparr>imageData := js_set (imageData s) imageKey
                          \<lparr>url = ''/uploads/'' @ mf_filename f,
                           publicId = None,
                           originalName = mf_originalname f,
                           size_bytes = mf_size f,
                           mimetype = mf_mimetype f,
                           uploadedAt = now e\<rparr>\<rparr>
            in case saveImageData e s1 of
                 Inl err \<Rightarrow> (Resp 500 (ErrorBody ''File upload failed''), s1)
               | Inr s2 \<Rightarrow>
                   (Resp 200 (UploadBody (''/uploads/'' @ mf_filename f) imageKey), s2))"

definition post_upload :: "env \<Rightarrow> flat_state \<Rightarrow> upload_request \<Rightarrow> response \<times> flat_state" where
  \<comment> \<open>\<open>app.post("/api/upload", upload.single("image"), handler)\<close>\<close>
  "post_upload e s rq =
     (case multer_disk e s rq of
        (Inl err, s1) \<Rightarrow> (Unhandled err, s1)
      | (Inr file, s1) \<Rightarrow> upload_handler e s1 file (imageKey_field rq))"

definition get_images :: "flat_state \<Rightarrow> response \<times> flat_state" where
  \<comment> \<open>\<open>res.json(imageData)\<close>: the own enumerable properties\<close>
  "get_images s = (Resp 200 (ListBody (own (imageData s))), s)"

definition get_image :: "flat_state \<Rightarrow> string \<Rightarrow> response \<times> flat_state" where
  "get_image s key =
     (if truthy (js_get (imageData s) key)
      then (Resp 200 (ValueBody (js_get (imageData s) key)), s)
      else (Resp 404 (ErrorBody ''Image not found''), s))"

definition delete_target :: "flat_state \<Rightarrow> image_record \<Rightarrow> path" where
  \<comment> \<open>\<open>path.join(__dirname, "uploads", path.basename(record.url))\<close>\<close>
  "delete_target s r = path_join (dirname s) [''uploads'', basename (url r)]"

definition delete_image :: "env \<Rightarrow> flat_state \<Rightarrow> string \<Rightarrow> response \<times> flat_state" where
  \<comment> \<open>the handler has no \<open>try\<close>: what \<open>path.basename\<close>, \<open>unlinkSync\<close> or \<open>writeFileSync\<close>
      throw leaves it\<close>
  "delete_image e s key =
     (if truthy (js_get (imageData s) key) then
        (case js_get (imageData s) key of
           Obj r \<Rightarrow>
             let filePath = delete_target s r;
                 s1 = s\<lparr>fs_log := fs_log s @ [FsExists filePath]\<rparr>;
                 unlinked =
                   (if existsSync s1 filePath
                    then unlinkSync (s1\<lparr>fs_log := fs_log s1 @ [FsUnlink filePath]\<rparr>) filePath
                    else Inr s1)
             in (case unlinked of
                   Inl err \<Rightarrow>
                     (Unhandled (FsError err), s1\<lparr>fs_log := fs_log s1 @ [FsUnlink filePath]\<rparr>)
                 | Inr s2 \<Rightarrow>
                     let s3 = s2\<lparr>imageData := js_delete (imageData s2) key\<rparr>
                     in (case saveImageData e s3 of
                           Inl err \<Rightarrow> (Unhandled (FsError err), s3)
                         | Inr s4 \<Rightarrow>
                             (Resp 200 (SuccessBody ''Image deleted successfully''), s4)))
         | v \<Rightarrow> (Unhandled (TypeError ''ERR_INVALID_ARG_TYPE''), s))
      else (Resp 404 (ErrorBody ''Image not found''), s))"

section \<open>The durable deployment: MongoDB and Cloudinary\<close>

record cloud_state =
  collection :: "(string \<times> image_record) list"
  cloudinary :: "(string \<times> string) list"
  svc_log :: "call list"

text \<open>
  \<open>collection\<close> holds the documents of the model \<open>Image\<close> by \<open>imageKey\<close> in insertion
  order, \<open>cloudinary\<close> the stored assets by public id, \<open>svc_log\<close> the calls made to the two
  services so far.
\<close>

definition cloud_file_size_limit :: nat where
  "cloud_file_size_limit = 10 * 1024 * 1024"

definition multer_cloudinary :: "env \<Rightarrow> cloud_state \<Rightarrow> upload_request
                                  \<Rightarrow> (js_error + multer_file option) \<times> cloud_state" where
  \<comment> \<open>\<open>upload.fields([{ name: "image", maxCount: 1 }])\<close> on the Cloudinary storage engine.
      An asset over the limit is uploaded and destroyed again by the middleware.\<close>
  "multer_cloudinary e s rq =
     (case file_part rq of
        None \<Rightarrow> (Inr None, s)
      | Some f \<Rightarrow>
          if \<not> fileFilter f then (Inl (FilterError ''Only image files are allowed!''), s)
          else
            let s1 = s\<lparr>svc_log := svc_log s @ [CloudUpload (file_originalname f)]\<rparr>
            in case cloudinary_upload e of
                 None \<Rightarrow> (Inl (ServiceError ''upload refused''), s1)
               | Some (secure_url, public_id) \<Rightarrow>
                   if cloud_file_size_limit < length (file_content f)
                   then (Inl (MulterError ''File too large''),
                         s1\<lparr>cloudinary := filter (\<lambda>a. fst a \<noteq> public_id) (cloudinary s1),
                            svc_log := svc_log s1 @ [CloudDestroy public_id]\<rparr>)
                   else (Inr (Some \<lparr>mf_filename = public_id, mf_path = secure_url,
                                     mf_originalname = file_originalname f,
                                     mf_size = length (file_content f),
                                     mf_mimetype = file_mimetype f\<rparr>),
                         s1\<lparr>cloudinary :=
                              (public_id, file_content f)
                                # filter (\<lambda>a. fst a \<noteq> public_id) (cloudinary s1)\<rparr>))"

definition findOneAndUpdate :: "string \<Rightarrow> image_record \<Rightarrow> (string \<times> image_record) list
                                 \<Rightarrow> (string \<times> image_record) list" where
  \<comment> \<open>with \<open>upsert: true\<close>: every listed field of the matching document is set, or the
      document is inserted\<close>
  "findOneAndUpdate k doc coll =
     (if map_of coll k \<noteq> None then replace_own k doc coll else coll @ [(k, doc)])"

definition cloud_upload_handler :: "env \<Rightarrow> cloud_state \<Rightarrow> multer_file option \<Rightarrow> string option
                                     \<Rightarrow> response \<times> cloud_state" where
  "cloud_upload_handler e s file key =
     (case file of
        None \<Rightarrow> (Resp 400 (ErrorBody ''No file uploaded''), s)
      | Some uploadedFile \<Rightarrow>
          if js_falsy key then (Resp 400 (ErrorBody ''Image key is required''), s)
          else
            let imageKey = (case key of None \<Rightarrow> [] | Some k \<Rightarrow> k);
                doc = \<lparr>url = mf_path uploadedFile,
                       publicId = Some (mf_filename uploadedFile),
                       originalName = mf_originalname uploadedFile,
                       size_bytes = mf_size uploadedFile,
                       mimetype = mf_mimetype uploadedFile,
                       uploadedAt = now e\<rparr>;
                s1 = s\<lparr>svc_log := svc_log s @ [DbFindOneAndUpdate imageKey]\<rparr>
            in if db_write_fails e then (Resp 500 (ErrorBody ''File upload failed''), s1)
               else (Resp 200 (UploadDocBody (mf_path uploadedFile) imageKey
                                 (mf_filename uploadedFile) (imageKey, doc)),
                     s1\<lparr>collection := findOneAndUpdate imageKey doc (collection s1)\<rparr>))"

definition cloud_post_upload :: "env \<Rightarrow> cloud_state \<Rightarrow> upload_request
                                  \<Rightarrow> response \<times> cloud_state" where
  "cloud_post_upload e s rq =
     (case multer_cloudinary e s rq of
        (Inl err, s1) \<Rightarrow> (Unhandled err, s1)
      | (Inr file, s1) \<Rightarrow> cloud_upload_handler e s1 file (imageKey_field rq))"

definition find_sorted :: "(string \<times> image_record) list \<Rightarrow> (string \<times> image_record) list" where
  \<comment> \<open>\<open>Image.find({}).sort({ uploadedAt: -1 })\<close>\<close>
  "find_sorted coll = sort_key (\<lambda>img. - int (uploadedAt (snd img))) coll"

definition listing_object :: "(string \<times> image_record) list \<Rightarrow> js_object" where
  \<comment> \<open>the \<open>forEach\<close> that fills a fresh object, one assignment per document\<close>
  "listing_object images =
     foldl (\<lambda>imageData img.
              js_set imageData (fst img)
                \<lparr>url = url (snd img), publicId = publicId (snd img),
                 originalName = originalName (snd img), size_bytes = size_bytes (snd img),
                 mimetype = mimetype (snd img), uploadedAt = uploadedAt (snd img)\<rparr>)
           empty_object images"

definition cloud_get_images :: "env \<Rightarrow> cloud_state \<Rightarrow> response \<times> cloud_state" where
  "cloud_get_images e s =
     (let s1 = s\<lparr>svc_log := svc_log s @ [DbFind]\<rparr>
      in if db_read_fails e then (Resp 500 (ErrorBody ''Failed to fetch images''), s1)
         else (Resp 200 (ListBody (own (listing_object (find_sorted (collection s1))))), s1))"

definition cloud_get_image :: "env \<Rightarrow> cloud_state \<Rightarrow> string \<Rightarrow> response \<times> cloud_state" where
  "cloud_get_image e s key =
     (let s1 = s\<lparr>svc_log := svc_log s @ [DbFindOne key]\<rparr>
      in if db_read_fails e then (Resp 500 (ErrorBody ''Failed to fetch image''), s1)
         else case map_of (collection s1) key of
                Some doc \<Rightarrow>
                  (Resp 200 (ValueBody (Obj
                     \<lparr>url = url doc, publicId = publicId doc,
                      originalName = originalName doc, size_bytes = size_bytes doc,
                      mimetype = mimetype doc, uploadedAt = uploadedAt doc\<rparr>)), s1)
              | None \<Rightarrow> (Resp 404 (ErrorBody ''Image not found''), s1))"

definition cloud_delete_image :: "env \<Rightarrow> cloud_state \<Rightarrow> string \<Rightarrow> response \<times> cloud_state" where
  \<comment> \<open>\<open>destroy\<close> resolves when the asset is gone already and rejects on any other failure;
      the \<open>catch\<close> turns every rejection into the 500 answer\<close>
  "cloud_delete_image e s key =
     (let s1 = s\<lparr>svc_log := svc_log s @ [DbFindOne key]\<rparr>
      in if db_read_fails e then (Resp 500 (ErrorBody ''Failed to delete image''), s1)
         else case map_of (collection s1) key of
                None \<Rightarrow> (Resp 404 (ErrorBody ''Image not found''), s1)
              | Some doc \<Rightarrow>
                  let destroyed =
                        (if \<not> js_falsy (publicId doc) then
                           (let pid = (case publicId doc of None \<Rightarrow> [] | Some p \<Rightarrow> p);
                                s2 = s1\<lparr>svc_log := svc_log s1 @ [CloudDestroy pid]\<rparr>
                            in if cloudinary_destroy_fails e then Inl s2
                               else Inr (s2\<lparr>cloudinary :=
                                              filter (\<lambda>a. fst a \<noteq> pid) (cloudinary s2)\<rparr>))
                         else Inr s1)
                  in case destroyed of
                       Inl s2 \<Rightarrow> (Resp 500 (ErrorBody ''Failed to delete image''), s2)
                     | Inr s2 \<Rightarrow>
                         let s3 = s2\<lparr>svc_log := svc_log s2 @ [DbDeleteOne key]\<rparr>
                         in if db_write_fails e
                            then (Resp 500 (ErrorBody ''Failed to delete image''), s3)
                            else (Resp 200 (SuccessBody ''Image deleted successfully''),
                                  s3\<lparr>collection :=
                                       filter (\<lambda>d. fst d \<noteq> key) (collection s3)\<rparr>))"

section \<open>Login\<close>

datatype json = JUndefined | JNull | JBool bool | JNumber int | JString string | JObject

text \<open>
  A field of the parsed request body: absent (\<open>JUndefined\<close>) or a JSON value; \<open>JObject\<close>
  stands for any object or array.
\<close>

record login_request =
  username :: json
  password :: json

record credentials =
  ADMIN_USERNAME :: "string option"
  ADMIN_PASSWORD :: "string option"

text \<open>
  The two entries of \<open>process.env\<close>: a string, or \<open>None\<close> for undefined. A login request
  carries \<open>req.body\<close>: the object that \<open>express.json()\<close> has parsed, or \<open>None\<close> when the
  parser left \<open>req.body\<close> undefined (a request without a JSON body, where the framework does
  not put an empty object in its place).
\<close>

definition strict_equals :: "json \<Rightarrow> string option \<Rightarrow> bool" where
  \<comment> \<open>\<open>x === process.env.NAME\<close>: same type and same value\<close>
  "strict_equals x v =
     (case v of
        None \<Rightarrow> (case x of JUndefined \<Rightarrow> True | _ \<Rightarrow> False)
      | Some s \<Rightarrow> (case x of JString t \<Rightarrow> t = s | _ \<Rightarrow> False))"

definition destructure_body :: "login_request option \<Rightarrow> js_error + login_request" where
  \<comment> \<open>\<open>const { username, password } = req.body\<close>: throws a TypeError on undefined\<close>
  "destructure_body body =
     (case body of
        None \<Rightarrow> Inl (TypeError ''Cannot destructure property of undefined'')
      | Some rq \<Rightarrow> Inr rq)"

definition post_login :: "credentials \<Rightarrow> cloud_state \<Rightarrow> login_request option
                           \<Rightarrow> response \<times> cloud_state" where
  \<comment> \<open>the \<open>catch\<close> answers whatever the \<open>try\<close> throws with 500 and the error's message
      as \<open>details\<close>\<close>
  "post_login cfg s body =
     (case destructure_body body of
        Inl err \<Rightarrow> (Resp 500 (AuthErrorBody ''Authentication failed'' err), s)
      | Inr rq \<Rightarrow>
          if strict_equals (username rq) (ADMIN_USERNAME cfg)
             \<and> strict_equals (password rq) (ADMIN_PASSWORD cfg)
          then (Resp 200 (SuccessBody ''Authentication successful''), s)
          else (Resp 401 (AuthFailBody ''Invalid credentials''), s))"

definition env_value :: "string option \<Rightarrow> json" where
  \<comment> \<open>an entry of \<open>process.env\<close> as a JavaScript value\<close>
  "env_value v = (case v of None \<Rightarrow> JUndefined | Some s \<Rightarrow> JString s)"

section \<open>Auxiliary notions for the properties\<close>

definition proper_segment :: "string \<Rightarrow> bool" where
  \<comment> \<open>a segment of a path in normal form\<close>
  "proper_segment seg = (seg \<noteq> [] \<and> seg \<noteq> ''.'' \<and> seg \<noteq> ''..'' \<and> CHR ''/'' \<notin> set seg)"

definition normal_path :: "path \<Rightarrow> bool" where
  "normal_path p = list_all proper_segment p"

definition is_regular_file :: "flat_state \<Rightarrow> path \<Rightarrow> bool" where
  \<comment> \<open>the path names a file, not a directory and not nothing\<close>
  "is_regular_file s p = (case map_of (nodes s) p of Some (RegularFile c) \<Rightarrow> True | _ \<Rightarrow> False)"

definition upload_record :: "env \<Rightarrow> upload_file \<Rightarrow> image_record" where
  \<comment> \<open>the record the flat-file handler stores for an accepted file\<close>
  "upload_record e f =
     \<lparr>url = ''/uploads/'' @ disk_filename e f, publicId = None,
      originalName = file_originalname f, size_bytes = length (file_content f),
      mimetype = file_mimetype f, uploadedAt = now e\<rparr>"

definition cloud_record :: "env \<Rightarrow> upload_file \<Rightarrow> image_record" where
  \<comment> \<open>the fields the durable handler sets for an accepted file\<close>
  "cloud_record e f =
     \<lparr>url = (case cloudinary_upload e of None \<Rightarrow> [] | Some a \<Rightarrow> fst a),
      publicId = map_option snd (cloudinary_upload e),
      originalName = file_originalname f, size_bytes = length (file_content f),
      mimetype = file_mimetype f, uploadedAt = now e\<rparr>"

definition plain_key :: "string \<Rightarrow> bool" where
  \<comment> \<open>a key that an assignment to a plain object stores as a new last property\<close>
  "plain_key k = (if is_array_index k then False else k \<noteq> ''__proto__'')"

definition accepted :: "response \<Rightarrow> bool" where
  \<comment> \<open>the request succeeded\<close>
  "accepted r = (http_status r = 200)"

text \<open>A series of upload requests, each with what it reads from outside, one after the other.\<close>

fun run_uploads :: "(env \<times> upload_request) list \<Rightarrow> flat_state \<Rightarrow> response list \<times> flat_state" where
  "run_uploads [] s = ([], s)"
| "run_uploads (x # xs) s =
     (let (r, s1) = post_upload (fst x) s (snd x);
          (rs, s2) = run_uploads xs s1
      in (r # rs, s2))"

fun cloud_run_uploads :: "(env \<times> upload_request) list \<Rightarrow> cloud_state
                           \<Rightarrow> response list \<times> cloud_state" where
  "cloud_run_uploads [] c = ([], c)"
| "cloud_run_uploads (x # xs) c =
     (let (r, c1) = cloud_post_upload (fst x) c (snd x);
          (rs, c2) = cloud_run_uploads xs c1
      in (r # rs, c2))"

section \<open>Concrete requests and states\<close>

definition ex_env :: env where
  "ex_env = \<lparr>now = 1700, rand = 42, disk_write_fails = False, json_write_fails = False,
     cloudinary_upload = Some (''https://cdn.example/a1.png'', ''adriana-photography/a1''),
     cloudinary_destroy_fails = False, db_read_fails = False, db_write_fails = False\<rparr>"

definition ex_flat :: flat_state where
  \<comment> \<open>the flat-file server right after its first start: no metadata, no \<open>uploads\<close> directory\<close>
  "ex_flat = \<lparr>dirname = [''app''], imageData = empty_object, nodes = [([''app''], Directory)],
     unlink_denied = [], json_file = None, fs_log = []\<rparr>"

definition ex_cloud :: cloud_state where
  "ex_cloud = \<lparr>collection = [], cloudinary = [], svc_log = []\<rparr>"

definition ex_png :: upload_file where
  "ex_png = \<lparr>file_originalname = ''cat.png'', file_mimetype = ''image/png'',
     file_content = ''PNG''\<rparr>"

definition ex_unconfigured :: credentials where
  \<comment> \<open>neither \<open>ADMIN_USERNAME\<close> nor \<open>ADMIN_PASSWORD\<close> is set\<close>
  "ex_unconfigured = \<lparr>ADMIN_USERNAME = None, ADMIN_PASSWORD = None\<rparr>"

definition ex_txt :: upload_file where
  "ex_txt = \<lparr>file_originalname = ''notes.txt'', file_mimetype = ''text/plain'',
     file_content = ''hello''\<rparr>"

definition ex_env2 :: env where
  "ex_env2 = \<lparr>now = 1800, rand = 7, disk_write_fails = False, json_write_fails = False,
     cloudinary_upload = Some (''https://cdn.example/b2.jpg'', ''adriana-photography/b2''),
     cloudinary_destroy_fails = False, db_read_fails = False, db_write_fails = False\<rparr>"

definition ex_jpg :: upload_file where
  "ex_jpg = \<lparr>file_originalname = ''dog.jpg'', file_mimetype = ''image/jpeg'',
     file_content = ''JPEG''\<rparr>"

definition ex_rq_txt :: upload_request where
  "ex_rq_txt = \<lparr>file_part = Some ex_txt, imageKey_field = Some ''hero''\<rparr>"

definition ex_rq_nokey :: upload_request where
  "ex_rq_nokey = \<lparr>file_part = Some ex_png, imageKey_field = None\<rparr>"

definition ex_rq_hero :: upload_request where
  "ex_rq_hero = \<lparr>file_part = Some ex_png, imageKey_field = Some ''hero''\<rparr>"

definition ex_rq_proto_png :: upload_request where
  "ex_rq_proto_png = \<lparr>file_part = Some ex_png, imageKey_field = Some ''__proto__''\<rparr>"

definition ex_rq_proto_jpg :: upload_request where
  "ex_rq_proto_jpg = \<lparr>file_part = Some ex_jpg, imageKey_field = Some ''__proto__''\<rparr>"

definition ex_rq_one :: upload_request where
  "ex_rq_one = \<lparr>file_part = Some ex_png, imageKey_field = Some ''1''\<rparr>"

definition ex_rq_two :: upload_request where
  "ex_rq_two = \<lparr>file_part = Some ex_jpg, imageKey_field = Some ''2''\<rparr>"

definition ex_flat_hero :: flat_state where
  "ex_flat_hero = snd (post_upload ex_env ex_flat ex_rq_hero)"

definition ex_flat_locked :: flat_state where
  "ex_flat_locked =
     ex_flat_hero\<lparr>unlink_denied := [[''app'', ''uploads'', ''image-1700-42.png'']]\<rparr>"

definition ex_flat_proto1 :: flat_state where
  "ex_flat_proto1 = snd (post_upload ex_env ex_flat ex_rq_proto_png)"

definition ex_flat_proto2 :: flat_state where
  "ex_flat_proto2 = snd (post_upload ex_env2 ex_flat_proto1 ex_rq_proto_jpg)"

definition ex_flat_hero_proto :: flat_state where
  "ex_flat_hero_proto = snd (post_upload ex_env2 ex_flat_hero ex_rq_proto_jpg)"

definition ex_cloud_hero :: cloud_state where
  "ex_cloud_hero = snd (cloud_post_upload ex_env ex_cloud ex_rq_hero)"

definition ex_cloud_proto1 :: cloud_state where
  "ex_cloud_proto1 = snd (cloud_post_upload ex_env ex_cloud ex_rq_proto_png)"

definition ex_cloud_proto2 :: cloud_state where
  "ex_cloud_proto2 = snd (cloud_post_upload ex_env2 ex_cloud_proto1 ex_rq_proto_jpg)"

definition ex_cloud_hero_proto :: cloud_state where
  "ex_cloud_hero_proto = snd (cloud_post_upload ex_env2 ex_cloud_hero ex_rq_proto_jpg)"

definition ex_cloud_12 :: cloud_state where
  "ex_cloud_12 = snd (cloud_post_upload ex_env2
                        (snd (cloud_post_upload ex_env ex_cloud ex_rq_one)) ex_rq_two)"

definition ex_env_outage :: env where
  "ex_env_outage = ex_env\<lparr>cloudinary_destroy_fails := True\<rparr>"

definition ex_file_png :: multer_file where
  "ex_file_png = \<lparr>mf_filename = ''image-1700-42.png'',
     mf_path = ''/app/uploads/image-1700-42.png'', mf_originalname = ''cat.png'',
     mf_size = 3, mf_mimetype = ''image/png''\<rparr>"

definition ex_flat_png :: flat_state where
  "ex_flat_png =
     ex_flat\<lparr>nodes := [([''app'', ''uploads'', ''image-1700-42.png''], RegularFile ''PNG''),
                        ([''app'', ''uploads''], Directory), ([''app''], Directory)],
              fs_log := [FsExists [''app'', ''uploads''], FsMkdir [''app'', ''uploads''],
                         FsWrite [''app'', ''uploads'', ''image-1700-42.png'']]\<rparr>"

definition ex_cfile_png :: multer_file where
  "ex_cfile_png = \<lparr>mf_filename = ''adriana-photography/a1'',
     mf_path = ''https://cdn.example/a1.png'', mf_originalname = ''cat.png'',
     mf_size = 3, mf_mimetype = ''image/png''\<rparr>"

definition ex_cloud_png :: cloud_state where
  "ex_cloud_png =
     \<lparr>collection = [], cloudinary = [(''adriana-photography/a1'', ''PNG'')],
      svc_log = [CloudUpload ''cat.png'']\<rparr>"

section \<open>Properties\<close>

subsection \<open>Login\<close>

lemma strict_equals_env_value: "strict_equals x v = (x = env_value v)"
  by (cases v; cases x) (auto simp: strict_equals_def env_value_def)

text \<open>
  A login request without a body, on a server with no credentials configured: nothing is
  supplied and nothing is configured, and the answer is 500 "Authentication failed", neither
  200 nor 401.
\<close>

theorem login_without_body_answers_500:
  "fst (post_login ex_unconfigured ex_cloud None)
     = Resp 500 (AuthErrorBody ''Authentication failed''
                   (TypeError ''Cannot destructure property of undefined''))
   \<and> http_status (fst (post_login ex_unconfigured ex_cloud None)) = 500
   \<and> snd (post_login ex_unconfigured ex_cloud None) = ex_cloud"
  by (simp add: post_login_def destructure_body_def)

text \<open>
  C10, as the code has it. For a login request whose body has been parsed, the answer is 200
  exactly when the supplied username is the same JavaScript value as the configured admin
  username and the supplied password the same value as the configured admin password, and
  401 with "Invalid credentials" otherwise; when nothing is configured and the parsed body
  has neither field, all four values are undefined and login succeeds. A request whose body
  is undefined is answered 500 with "Authentication failed" by the handler's \<open>catch\<close>. In
  every case the image state is the same afterwards.
\<close>

theorem login_succeeds_iff_credentials_match:
  "(fst (post_login cfg s (Some rq)) = Resp 200 (SuccessBody ''Authentication successful''))
     = (username rq = env_value (ADMIN_USERNAME cfg)
        \<and> password rq = env_value (ADMIN_PASSWORD cfg))
   \<and> (fst (post_login cfg s (Some rq)) \<noteq> Resp 200 (SuccessBody ''Authentication successful''))
     = (fst (post_login cfg s (Some rq)) = Resp 401 (AuthFailBody ''Invalid credentials''))
   \<and> fst (post_login cfg s None)
       = Resp 500 (AuthErrorBody ''Authentication failed''
                     (TypeError ''Cannot destructure property of undefined''))
   \<and> snd (post_login cfg s body) = s
   \<and> fst (post_login \<lparr>ADMIN_USERNAME = None, ADMIN_PASSWORD = None\<rparr> s
            (Some \<lparr>username = JUndefined, password = JUndefined\<rparr>))
       = Resp 200 (SuccessBody ''Authentication successful'')"
proof (intro conjI)
  show "(fst (post_login cfg s (Some rq)) = Resp 200 (SuccessBody ''Authentication successful''))
     = (username rq = env_value (ADMIN_USERNAME cfg)
        \<and> password rq = env_value (ADMIN_PASSWORD cfg))"
    by (simp add: post_login_def destructure_body_def strict_equals_env_value)
  show "(fst (post_login cfg s (Some rq)) \<noteq> Resp 200 (SuccessBody ''Authentication successful''))
     = (fst (post_login cfg s (Some rq)) = Resp 401 (AuthFailBody ''Invalid credentials''))"
    by (simp add: post_login_def destructure_body_def)
  show "fst (post_login cfg s None)
       = Resp 500 (AuthErrorBody ''Authentication failed''
                     (TypeError ''Cannot destructure property of undefined''))"
    by (simp add: post_login_def destructure_body_def)
  show "snd (post_login cfg s body) = s"
    by (cases body) (simp_all add: post_login_def destructure_body_def)
  show "fst (post_login \<lparr>ADMIN_USERNAME = None, ADMIN_PASSWORD = None\<rparr> s
            (Some \<lparr>username = JUndefined, password = JUndefined\<rparr>))
       = Resp 200 (SuccessBody ''Authentication successful'')"
    by (simp add: post_login_def destructure_body_def strict_equals_def)
qed

subsection \<open>The mime-type filter\<close>

text \<open>
  A text file sent under a valid key: the answer carries status 500, not the 400 of a
  validation error, in both deployments.
\<close>

theorem non_image_upload_answered_500:
  "http_status (fst (post_upload ex_env ex_flat ex_rq_txt)) = 500
   \<and> http_status (fst (post_upload ex_env ex_flat ex_rq_txt)) \<noteq> 400
   \<and> http_status (fst (cloud_post_upload ex_env ex_cloud ex_rq_txt)) = 500
   \<and> http_status (fst (cloud_post_upload ex_env ex_cloud ex_rq_txt)) \<noteq> 400"
proof -
  have f: "\<not> fileFilter ex_txt"
    by (simp add: fileFilter_def startsWith_def ex_txt_def)
  have a: "post_upload ex_env ex_flat ex_rq_txt
             = (Unhandled (FilterError ''Only image files are allowed!''), ex_flat)"
    by (simp add: post_upload_def multer_disk_def ex_rq_txt_def f)
  have b: "cloud_post_upload ex_env ex_cloud ex_rq_txt
             = (Unhandled (FilterError ''Only image files are allowed!''), ex_cloud)"
    by (simp add: cloud_post_upload_def multer_cloudinary_def ex_rq_txt_def f)
  show ?thesis by (simp add: a b)
qed

text \<open>
  C4, as the code has it. An upload whose file has a mime type that does not start with
  \<open>image/\<close> is rejected by the filter with the error "Only image files are allowed!", in
  both deployments. The error is handed to the framework, whose default handler answers it
  with status 500. The state after the request is the state before it, call log included:
  neither the blob store nor the metadata store has been called.
\<close>

theorem non_image_upload_rejected_before_storage:
  assumes "file_part rq = Some f" and "\<not> startsWith (file_mimetype f) ''image/''"
  shows "post_upload e s rq = (Unhandled (FilterError ''Only image files are allowed!''), s)
       \<and> cloud_post_upload e c rq
           = (Unhandled (FilterError ''Only image files are allowed!''), c)
       \<and> http_status (fst (post_upload e s rq)) = 500
       \<and> http_status (fst (cloud_post_upload e c rq)) = 500"
  using assms
  by (simp add: post_upload_def multer_disk_def cloud_post_upload_def multer_cloudinary_def
        fileFilter_def)

text \<open>The same at a text file sent under a valid key.\<close>

theorem non_image_upload_rejected_witness:
  "file_part ex_rq_txt = Some ex_txt
   \<and> \<not> startsWith (file_mimetype ex_txt) ''image/''
   \<and> post_upload ex_env ex_flat ex_rq_txt
       = (Unhandled (FilterError ''Only image files are allowed!''), ex_flat)
   \<and> cloud_post_upload ex_env ex_cloud ex_rq_txt
       = (Unhandled (FilterError ''Only image files are allowed!''), ex_cloud)
   \<and> http_status (fst (post_upload ex_env ex_flat ex_rq_txt)) = 500
   \<and> http_status (fst (cloud_post_upload ex_env ex_cloud ex_rq_txt)) = 500"
proof -
  have a: "file_part ex_rq_txt = Some ex_txt" by (simp add: ex_rq_txt_def)
  have b: "\<not> startsWith (file_mimetype ex_txt) ''image/''"
    by (simp add: ex_txt_def startsWith_def)
  show ?thesis
    using non_image_upload_rejected_before_storage [OF a b, of ex_env ex_flat ex_cloud] a b
    by simp
qed

subsection \<open>Keys that a plain object inherits\<close>

text \<open>
  C7. The flat-file lookup \<open>imageData[key]\<close> also finds what the object inherits: on a store
  that holds no record at all, the key \<open>constructor\<close> is answered 200, not 404.
\<close>

theorem get_inherited_key_answers_200:
  "map_of (own (imageData ex_flat)) ''constructor'' = None
   \<and> get_image ex_flat ''constructor''
       = (Resp 200 (ValueBody (Builtin ''constructor'')), ex_flat)"
  by (simp add: get_image_def ex_flat_def empty_object_def js_get_def object_prototype_get_def
        object_prototype_names_def truthy_def)

text \<open>
  C6. The flat-file delete of the key \<open>constructor\<close>, for which no record exists, passes the
  existence test on the inherited member, fails in \<open>path.basename\<close> on its missing \<open>url\<close>, and
  is answered 500, not 404; the state is unchanged.
\<close>

theorem delete_inherited_key_answers_500:
  "map_of (own (imageData ex_flat)) ''constructor'' = None
   \<and> delete_image ex_env ex_flat ''constructor''
       = (Unhandled (TypeError ''ERR_INVALID_ARG_TYPE''), ex_flat)
   \<and> http_status (fst (delete_image ex_env ex_flat ''constructor'')) = 500"
  by (simp add: delete_image_def ex_flat_def empty_object_def js_get_def object_prototype_get_def
        object_prototype_names_def truthy_def)

subsection \<open>Paths and the file system\<close>

lemma basename_no_slash: "CHR ''/'' \<notin> set (basename u)"
proof -
  have "\<forall>c \<in> set (takeWhile (\<lambda>c. c \<noteq> CHR ''/'') xs). c \<noteq> CHR ''/''" for xs
    by (auto dest: set_takeWhileD)
  then show ?thesis unfolding basename_def by auto
qed

lemma split_slash_no_slash: "CHR ''/'' \<notin> set s \<Longrightarrow> split_slash s = [s]"
  by (induction s) auto

lemma normalize_proper:
  "list_all proper_segment xs \<Longrightarrow> normalize acc xs = rev acc @ xs"
  by (induction xs arbitrary: acc) (auto simp: proper_segment_def)

lemma normalize_append_proper:
  "list_all proper_segment xs \<Longrightarrow> normalize acc (xs @ ys) = normalize (rev xs @ acc) ys"
  by (induction xs arbitrary: acc) (auto simp: proper_segment_def)

lemma path_join_uploads:
  assumes "normal_path d" and "CHR ''/'' \<notin> set b"
  shows "path_join d [''uploads'', b] =
           (if b = [] \<or> b = ''.'' then d @ [''uploads'']
            else if b = ''..'' then d
            else d @ [''uploads'', b])"
proof -
  have "path_join d [''uploads'', b] = normalize [] (d @ [''uploads'', b])"
    using assms(2) by (simp add: path_join_def split_slash_no_slash)
  also have "\<dots> = normalize (rev d) [''uploads'', b]"
    using assms(1) normalize_append_proper [of d "[]"] by (simp add: normal_path_def)
  finally show ?thesis by simp
qed

lemma map_of_fs_remove: "map_of (fs_remove p ns) q = (if q = p then None else map_of ns q)"
  unfolding fs_remove_def by (induction ns) auto

lemma map_of_fs_put: "map_of (fs_put p n ns) q = (if q = p then Some n else map_of ns q)"
  unfolding fs_put_def by (induction ns) auto

lemma existsSync_log [simp]: "existsSync (s\<lparr>fs_log := l\<rparr>) p = existsSync s p"
  by (simp add: existsSync_def)

lemma unlinkSync_log:
  "unlinkSync (s\<lparr>fs_log := l\<rparr>) p =
     (case unlinkSync s p of Inl err \<Rightarrow> Inl err | Inr s' \<Rightarrow> Inr (s'\<lparr>fs_log := l\<rparr>))"
  by (simp add: unlinkSync_def split: option.splits fs_node.splits)

lemma unlinkSync_Inr:
  "unlinkSync s p = Inr s' \<Longrightarrow>
     is_regular_file s p \<and> s' = s\<lparr>nodes := fs_remove p (nodes s)\<rparr>"
  by (auto simp: unlinkSync_def is_regular_file_def split: option.splits fs_node.splits if_splits)

lemma delete_target_log [simp]: "delete_target (s\<lparr>fs_log := l\<rparr>) r = delete_target s r"
  by (simp add: delete_target_def)

lemma js_get_own: "map_of (own obj) k = Some r \<Longrightarrow> js_get obj k = Obj r"
  by (simp add: js_get_def)

subsection \<open>The upload middleware\<close>

lemma multer_disk_metadata:
  assumes "multer_disk e s rq = (res, s1)"
  shows "imageData s1 = imageData s \<and> json_file s1 = json_file s \<and> dirname s1 = dirname s 
       \<and> unlink_denied s1 = unlink_denied s"
  using assms
  by (auto simp: multer_disk_def disk_destination_def Let_def split: option.splits if_splits)

lemma multer_disk_no_file:
  "file_part rq = None \<Longrightarrow> multer_disk e s rq = (Inr None, s)"
  by (simp add: multer_disk_def)

lemma multer_disk_stored:
  assumes "multer_disk e s rq = (Inr (Some mf), s1)"
  shows "\<exists>f. file_part rq = Some f \<and> mf_filename mf = disk_filename e f
           \<and> map_of (nodes s1)
                (path_join (path_join (dirname s) [''uploads'']) [mf_filename mf])
              = Some (RegularFile (file_content f))"
  using assms
  by (auto simp: multer_disk_def disk_destination_def Let_def map_of_fs_put
           split: option.splits if_splits)

lemma multer_cloudinary_metadata:
  assumes "multer_cloudinary e c rq = (res, c1)"
  shows "collection c1 = collection c"
  using assms
  by (auto simp: multer_cloudinary_def Let_def split: option.splits if_splits prod.splits)

lemma multer_cloudinary_no_file:
  "file_part rq = None \<Longrightarrow> multer_cloudinary e c rq = (Inr None, c)"
  by (simp add: multer_cloudinary_def)

lemma multer_cloudinary_stored:
  assumes "multer_cloudinary e c rq = (Inr (Some mf), c1)"
  shows "\<exists>f. file_part rq = Some f
           \<and> map_of (cloudinary c1) (mf_filename mf) = Some (file_content f)"
  using assms
  by (auto simp: multer_cloudinary_def Let_def split: option.splits if_splits prod.splits)

lemma upload_handler_accepted:
  assumes "k \<noteq> []" and "\<not> json_write_fails e"
  shows "upload_handler e s (Some mf) (Some k) =
           (Resp 200 (UploadBody (''/uploads/'' @ mf_filename mf) k),
            s\<lparr>imageData := js_set (imageData s) k
                  \<lparr>url = ''/uploads/'' @ mf_filename mf, publicId = None,
                   originalName = mf_originalname mf, size_bytes = mf_size mf,
                   mimetype = mf_mimetype mf, uploadedAt = now e\<rparr>,
              json_file := Some (own (js_set (imageData s) k
                  \<lparr>url = ''/uploads/'' @ mf_filename mf, publicId = None,
                   originalName = mf_originalname mf, size_bytes = mf_size mf,
                   mimetype = mf_mimetype mf, uploadedAt = now e\<rparr>)),
              fs_log := fs_log s @ [FsSaveJson]\<rparr>)"
  using assms by (simp add: upload_handler_def js_falsy_def saveImageData_def Let_def)

lemma multer_disk_file:
  assumes "multer_disk e s rq = (Inr (Some mf), s1)"
  shows "\<exists>f. file_part rq = Some f \<and> fileFilter f
           \<and> mf = \<lparr>mf_filename = disk_filename e f,
                    mf_path = render_path (path_join (path_join (dirname s) [''uploads''])
                                             [disk_filename e f]),
                    mf_originalname = file_originalname f,
                    mf_size = length (file_content f), mf_mimetype = file_mimetype f\<rparr>"
  using assms
  by (auto simp: multer_disk_def disk_destination_def Let_def split: option.splits if_splits)

lemma post_upload_accepted:
  assumes ok: "fst (post_upload e s rq) = Resp 200 b"
  shows "\<exists>f k. file_part rq = Some f \<and> fileFilter f \<and> imageKey_field rq = Some k \<and> k \<noteq> []
           \<and> b = UploadBody (''/uploads/'' @ disk_filename e f) k
           \<and> imageData (snd (post_upload e s rq)) = js_set (imageData s) k (upload_record e f)
           \<and> json_file (snd (post_upload e s rq))
               = Some (own (imageData (snd (post_upload e s rq))))"
proof -
  obtain res s1 where m: "multer_disk e s rq = (res, s1)" by (cases "multer_disk e s rq")
  from ok m obtain mfo where res: "res = Inr mfo"
    by (cases res) (auto simp: post_upload_def)
  have h: "post_upload e s rq = upload_handler e s1 mfo (imageKey_field rq)"
    by (simp add: post_upload_def m res)
  from ok h obtain mf k where fl: "mfo = Some mf" and k: "imageKey_field rq = Some k" "k \<noteq> []"
    and nf: "\<not> json_write_fails e"
    by (auto simp: upload_handler_def js_falsy_def saveImageData_def Let_def
             split: option.splits if_splits)
  from m res fl multer_disk_file [of e s rq mf s1]
  obtain f where f: "file_part rq = Some f" "fileFilter f"
    and mf: "mf = \<lparr>mf_filename = disk_filename e f,
                    mf_path = render_path (path_join (path_join (dirname s) [''uploads''])
                                             [disk_filename e f]),
                    mf_originalname = file_originalname f,
                    mf_size = length (file_content f), mf_mimetype = file_mimetype f\<rparr>"
    by auto
  have md: "imageData s1 = imageData s" using multer_disk_metadata [OF m] by simp
  have r: "post_upload e s rq = upload_handler e s1 (Some mf) (Some k)"
    by (simp add: h fl k)
  show ?thesis
    using ok f k unfolding r upload_handler_accepted [OF k(2) nf]
    by (simp add: mf md upload_record_def)
qed

lemma cloud_post_upload_accepted:
  assumes ok: "fst (cloud_post_upload e c rq) = Resp 200 b"
  shows "\<exists>f k u pid. file_part rq = Some f \<and> fileFilter f \<and> imageKey_field rq = Some k
           \<and> k \<noteq> [] \<and> cloudinary_upload e = Some (u, pid)
           \<and> b = UploadDocBody u k pid (k, cloud_record e f)
           \<and> collection (snd (cloud_post_upload e c rq))
               = findOneAndUpdate k (cloud_record e f) (collection c)"
  using ok
  by (auto simp: cloud_post_upload_def multer_cloudinary_def cloud_upload_handler_def Let_def
        js_falsy_def cloud_record_def
        split: option.splits if_splits prod.splits)

lemma cloud_post_upload_eval:
  assumes "file_part rq = Some f" and "fileFilter f" and "cloudinary_upload e = Some (u, pid)"
      and "length (file_content f) \<le> cloud_file_size_limit"
      and "imageKey_field rq = Some k" and "k \<noteq> []" and "\<not> db_write_fails e"
  shows "cloud_post_upload e c rq =
           (Resp 200 (UploadDocBody u k pid (k, cloud_record e f)),
            c\<lparr>collection := findOneAndUpdate k (cloud_record e f) (collection c),
              cloudinary := (pid, file_content f) # filter (\<lambda>a. fst a \<noteq> pid) (cloudinary c),
              svc_log := svc_log c @ [CloudUpload (file_originalname f), DbFindOneAndUpdate k]\<rparr>)"
  using assms
  by (simp add: cloud_post_upload_def multer_cloudinary_def cloud_upload_handler_def Let_def
        js_falsy_def cloud_record_def)


subsection \<open>Uploads that fail the handler's checks\<close>

text \<open>
  C1, as the code has it. An upload request that reaches the route handler (the middleware
  found no file, or accepted and stored the one it found) without a file or with a missing or
  empty \<open>imageKey\<close> is answered 400, and no metadata record is created or modified: the
  handler leaves the state as the middleware left it. Without a file that is the state before
  the request; with a file the middleware has stored the blob already and it stays stored.
\<close>

theorem invalid_upload_answers_400_metadata_untouched:
  "(multer_disk e s rq = (Inr file, s1) \<and> (file = None \<or> js_falsy (imageKey_field rq))
    \<longrightarrow> http_status (fst (post_upload e s rq)) = 400
        \<and> snd (post_upload e s rq) = s1
        \<and> imageData s1 = imageData s \<and> json_file s1 = json_file s
        \<and> (file_part rq = None \<longrightarrow> s1 = s)
        \<and> (\<forall>mf. file = Some mf \<longrightarrow>
              (\<exists>f. file_part rq = Some f
                 \<and> map_of (nodes s1)
                      (path_join (path_join (dirname s) [''uploads'']) [mf_filename mf])
                    = Some (RegularFile (file_content f)))))
   \<and> (multer_cloudinary e c rq = (Inr cfile, c1)
        \<and> (cfile = None \<or> js_falsy (imageKey_field rq))
    \<longrightarrow> http_status (fst (cloud_post_upload e c rq)) = 400
        \<and> snd (cloud_post_upload e c rq) = c1
        \<and> collection c1 = collection c
        \<and> (file_part rq = None \<longrightarrow> c1 = c)
        \<and> (\<forall>mf. cfile = Some mf \<longrightarrow>
              (\<exists>f. file_part rq = Some f
                 \<and> map_of (cloudinary c1) (mf_filename mf) = Some (file_content f))))"
proof (intro conjI impI allI)
  assume a: "multer_disk e s rq = (Inr file, s1)
               \<and> (file = None \<or> js_falsy (imageKey_field rq))"
  then have m: "multer_disk e s rq = (Inr file, s1)" by simp
  have h: "post_upload e s rq = upload_handler e s1 file (imageKey_field rq)"
    by (simp add: post_upload_def m)
  from a have r: "upload_handler e s1 file (imageKey_field rq)
        = (Resp 400 (ErrorBody (if file = None then ''No file uploaded''
                                else ''Image key is required'')), s1)"
    by (auto simp: upload_handler_def split: option.splits)
  show "http_status (fst (post_upload e s rq)) = 400" by (simp add: h r)
  show "snd (post_upload e s rq) = s1" by (simp add: h r)
  show "imageData s1 = imageData s" using multer_disk_metadata [OF m] by simp
  show "json_file s1 = json_file s" using multer_disk_metadata [OF m] by simp
  show "s1 = s" if "file_part rq = None"
    using m multer_disk_no_file [OF that, of e s] by simp
  show "\<exists>f. file_part rq = Some f
           \<and> map_of (nodes s1) (path_join (path_join (dirname s) [''uploads'']) [mf_filename mf])
              = Some (RegularFile (file_content f))" if "file = Some mf" for mf
    using multer_disk_stored [of e s rq mf s1] m that by auto
next
  assume a: "multer_cloudinary e c rq = (Inr cfile, c1)
        \<and> (cfile = None \<or> js_falsy (imageKey_field rq))"
  then have m: "multer_cloudinary e c rq = (Inr cfile, c1)" by simp
  have h: "cloud_post_upload e c rq = cloud_upload_handler e c1 cfile (imageKey_field rq)"
    by (simp add: cloud_post_upload_def m)
  from a have r: "cloud_upload_handler e c1 cfile (imageKey_field rq)
        = (Resp 400 (ErrorBody (if cfile = None then ''No file uploaded''
                                else ''Image key is required'')), c1)"
    by (auto simp: cloud_upload_handler_def split: option.splits)
  show "http_status (fst (cloud_post_upload e c rq)) = 400" by (simp add: h r)
  show "snd (cloud_post_upload e c rq) = c1" by (simp add: h r)
  show "collection c1 = collection c" using multer_cloudinary_metadata [OF m] by simp
  show "c1 = c" if "file_part rq = None"
    using m multer_cloudinary_no_file [OF that, of e c] by simp
  show "\<exists>f. file_part rq = Some f
           \<and> map_of (cloudinary c1) (mf_filename mf) = Some (file_content f)"
    if "cfile = Some mf" for mf
    using multer_cloudinary_stored [of e c rq mf c1] m that by auto
qed

subsection \<open>Deleting an image\<close>

text \<open>
  C2. When a record exists for the key and the deletion of its blob fails although the blob is
  there (flat-file: \<open>unlinkSync\<close> throws on the existing path; durable: \<open>destroy\<close>
  rejects), the request is answered 500 and the metadata is what it was: the record is still
  stored, the file \<open>imageData.json\<close> is not rewritten, and no blob has been removed.
\<close>

theorem delete_failure_keeps_record:
  "(map_of (own (imageData s)) key = Some r \<and> existsSync s (delete_target s r)
      \<and> unlinkSync s (delete_target s r) = Inl err
    \<longrightarrow> fst (delete_image e s key) = Unhandled (FsError err)
        \<and> http_status (fst (delete_image e s key)) = 500
        \<and> imageData (snd (delete_image e s key)) = imageData s
        \<and> json_file (snd (delete_image e s key)) = json_file s
        \<and> nodes (snd (delete_image e s key)) = nodes s)
   \<and> (map_of (collection c) key = Some d \<and> \<not> db_read_fails e \<and> \<not> js_falsy (publicId d)
      \<and> cloudinary_destroy_fails e
    \<longrightarrow> fst (cloud_delete_image e c key) = Resp 500 (ErrorBody ''Failed to delete image'')
        \<and> collection (snd (cloud_delete_image e c key)) = collection c
        \<and> cloudinary (snd (cloud_delete_image e c key)) = cloudinary c)"
proof (intro conjI impI)
  assume a: "map_of (own (imageData s)) key = Some r \<and> existsSync s (delete_target s r)
      \<and> unlinkSync s (delete_target s r) = Inl err"
  then have g: "js_get (imageData s) key = Obj r" by (simp add: js_get_own)
  have r: "delete_image e s key =
      (Unhandled (FsError err),
       s\<lparr>fs_log := fs_log s @ [FsExists (delete_target s r), FsUnlink (delete_target s r)]\<rparr>)"
    using a by (simp add: delete_image_def g truthy_def Let_def unlinkSync_log)
  show "fst (delete_image e s key) = Unhandled (FsError err)" by (simp add: r)
  show "http_status (fst (delete_image e s key)) = 500" by (simp add: r)
  show "imageData (snd (delete_image e s key)) = imageData s" by (simp add: r)
  show "json_file (snd (delete_image e s key)) = json_file s" by (simp add: r)
  show "nodes (snd (delete_image e s key)) = nodes s" by (simp add: r)
next
  assume b: "map_of (collection c) key = Some d \<and> \<not> db_read_fails e
      \<and> \<not> js_falsy (publicId d) \<and> cloudinary_destroy_fails e"
  then have r: "cloud_delete_image e c key =
      (Resp 500 (ErrorBody ''Failed to delete image''),
       c\<lparr>svc_log := svc_log c @ [DbFindOne key,
            CloudDestroy (case publicId d of None \<Rightarrow> [] | Some p \<Rightarrow> p)]\<rparr>)"
    by (simp add: cloud_delete_image_def Let_def)
  show "fst (cloud_delete_image e c key) = Resp 500 (ErrorBody ''Failed to delete image'')"
    by (simp add: r)
  show "collection (snd (cloud_delete_image e c key)) = collection c" by (simp add: r)
  show "cloudinary (snd (cloud_delete_image e c key)) = cloudinary c" by (simp add: r)
qed

lemma delete_image_cases:
  "(\<exists>r. js_get (imageData s) key = Obj r
        \<and> (nodes (snd (delete_image e s key)) = nodes s
            \<or> (is_regular_file s (delete_target s r)
               \<and> nodes (snd (delete_image e s key)) = fs_remove (delete_target s r) (nodes s)))
        \<and> set (drop (length (fs_log s)) (fs_log (snd (delete_image e s key))))
            \<subseteq> {FsExists (delete_target s r), FsUnlink (delete_target s r), FsSaveJson})
   \<or> snd (delete_image e s key) = s"
proof (cases "js_get (imageData s) key")
  case (Obj r)
  let ?p = "delete_target s r"
  show ?thesis
  proof (cases "existsSync s ?p")
    case False
    then show ?thesis
      using Obj
      by (auto simp: delete_image_def truthy_def Let_def saveImageData_def split: sum.splits)
  next
    case True
    show ?thesis
    proof (cases "unlinkSync s ?p")
      case (Inl err)
      then show ?thesis
        using Obj True by (simp add: delete_image_def truthy_def Let_def unlinkSync_log)
    next
      case (Inr s2)
      then have reg: "is_regular_file s ?p" and s2: "s2 = s\<lparr>nodes := fs_remove ?p (nodes s)\<rparr>"
        using unlinkSync_Inr by blast+
      show ?thesis
        using Obj True Inr reg
        by (auto simp: delete_image_def truthy_def Let_def unlinkSync_log s2 saveImageData_def)
    qed
  qed
qed (auto simp: delete_image_def truthy_def)

text \<open>
  C9. In the flat-file deployment the last segment of the stored url is all that reaches the
  file system: \<open>path.basename\<close> never returns a separator, every path handed to
  \<open>unlinkSync\<close> is \<open>path.join(__dirname, "uploads", basename(url))\<close> of the record found
  under the key, and the only entry of the file system that a delete can change is the file
  of that name directly inside \<open>uploads\<close>, whatever the url is. (The server's directory and
  \<open>uploads\<close> are taken to be directories or absent, as the server itself sets them up.)
\<close>

theorem delete_unlinks_only_uploads_basename:
  assumes "normal_path (dirname s)"
      and "\<not> is_regular_file s (dirname s)"
      and "\<not> is_regular_file s (dirname s @ [''uploads''])"
  shows "CHR ''/'' \<notin> set (basename u)
       \<and> (\<forall>p. FsUnlink p \<in> set (drop (length (fs_log s)) (fs_log (snd (delete_image e s key))))
              \<longrightarrow> (\<exists>r. js_get (imageData s) key = Obj r
                       \<and> p = path_join (dirname s) [''uploads'', basename (url r)]))
       \<and> (\<forall>p. map_of (nodes (snd (delete_image e s key))) p \<noteq> map_of (nodes s) p
              \<longrightarrow> (\<exists>r. js_get (imageData s) key = Obj r
                       \<and> p = dirname s @ [''uploads'', basename (url r)]))"
proof (intro conjI allI impI)
  show "CHR ''/'' \<notin> set (basename u)" by (rule basename_no_slash)
next
  fix p
  assume "FsUnlink p \<in> set (drop (length (fs_log s)) (fs_log (snd (delete_image e s key))))"
  then show "\<exists>r. js_get (imageData s) key = Obj r
                \<and> p = path_join (dirname s) [''uploads'', basename (url r)]"
    using delete_image_cases [of s key e] by (auto simp: delete_target_def)
next
  fix p
  assume ch: "map_of (nodes (snd (delete_image e s key))) p \<noteq> map_of (nodes s) p"
  with delete_image_cases [of s key e]
  obtain r where g: "js_get (imageData s) key = Obj r"
    and reg: "is_regular_file s (delete_target s r)"
    and n: "nodes (snd (delete_image e s key)) = fs_remove (delete_target s r) (nodes s)"
    by auto
  from ch n have p: "p = delete_target s r"
    by (auto simp: map_of_fs_remove split: if_splits)
  have j: "delete_target s r =
       (if basename (url r) = [] \<or> basename (url r) = ''.'' then dirname s @ [''uploads'']
        else if basename (url r) = ''..'' then dirname s
        else dirname s @ [''uploads'', basename (url r)])"
    unfolding delete_target_def
    by (rule path_join_uploads [OF assms(1) basename_no_slash])
  from reg assms(2,3) have "delete_target s r = dirname s @ [''uploads'', basename (url r)]"
    unfolding j by (auto split: if_splits)
  with g p show "\<exists>r. js_get (imageData s) key = Obj r
                \<and> p = dirname s @ [''uploads'', basename (url r)]" by auto
qed

subsection \<open>Evaluating the concrete requests\<close>

lemma show_nat_1700: "show_nat 1700 = ''1700''"
  by (simp add: show_nat.simps digit_char_def)

lemma show_nat_1800: "show_nat 1800 = ''1800''"
  by (simp add: show_nat.simps digit_char_def)

lemma show_nat_42: "show_nat 42 = ''42''"
  by (simp add: show_nat.simps digit_char_def)

lemma show_nat_7: "show_nat 7 = ''7''"
  by (simp add: show_nat.simps digit_char_def)

lemma ex_disk_filename_png: "disk_filename ex_env ex_png = ''image-1700-42.png''"
  by (simp add: disk_filename_def ex_env_def ex_png_def show_nat_1700 show_nat_42 extname_def
        basename_def)

lemma ex_disk_filename_jpg: "disk_filename ex_env2 ex_jpg = ''image-1800-7.jpg''"
  by (simp add: disk_filename_def ex_env2_def ex_jpg_def show_nat_1800 show_nat_7 extname_def
        basename_def)

lemma ex_multer_png:
  assumes "file_part rq = Some ex_png"
  shows "multer_disk ex_env ex_flat rq =
     (Inr (Some \<lparr>mf_filename = ''image-1700-42.png'',
                 mf_path = ''/app/uploads/image-1700-42.png'',
                 mf_originalname = ''cat.png'', mf_size = 3, mf_mimetype = ''image/png''\<rparr>),
      ex_flat\<lparr>nodes := [([''app'', ''uploads'', ''image-1700-42.png''], RegularFile ''PNG''),
                         ([''app'', ''uploads''], Directory), ([''app''], Directory)],
               fs_log := [FsExists [''app'', ''uploads''], FsMkdir [''app'', ''uploads''],
                          FsWrite [''app'', ''uploads'', ''image-1700-42.png'']]\<rparr>)"
proof -
  have d: "disk_destination ex_flat =
      ([''app'', ''uploads''],
       ex_flat\<lparr>nodes := [([''app'', ''uploads''], Directory), ([''app''], Directory)],
                fs_log := [FsExists [''app'', ''uploads''], FsMkdir [''app'', ''uploads'']]\<rparr>)"
    by (simp add: disk_destination_def ex_flat_def path_join_def existsSync_def valid_path_def
          fs_put_def Let_def)
  have f: "fileFilter ex_png" by (simp add: fileFilter_def startsWith_def ex_png_def)
  show ?thesis
    unfolding multer_disk_def
    apply (simp add: assms f d ex_disk_filename_png)
    apply (simp add: ex_png_def ex_flat_def path_join_def valid_path_def fs_put_def
         file_size_limit_def ex_env_def render_path_def numeral_3_eq_3 Let_def)
    done
qed

lemma ex_multer_jpg:
  assumes "file_part rq = Some ex_jpg" and "dirname s = [''app'']"
      and "nodes s = [([''app'', ''uploads'', ''image-1700-42.png''], RegularFile ''PNG''),
                      ([''app'', ''uploads''], Directory), ([''app''], Directory)]"
  shows "multer_disk ex_env2 s rq =
     (Inr (Some \<lparr>mf_filename = ''image-1800-7.jpg'',
                 mf_path = ''/app/uploads/image-1800-7.jpg'',
                 mf_originalname = ''dog.jpg'', mf_size = 4, mf_mimetype = ''image/jpeg''\<rparr>),
      s\<lparr>nodes := [([''app'', ''uploads'', ''image-1800-7.jpg''], RegularFile ''JPEG''),
                   ([''app'', ''uploads'', ''image-1700-42.png''], RegularFile ''PNG''),
                   ([''app'', ''uploads''], Directory), ([''app''], Directory)],
         fs_log := fs_log s @ [FsExists [''app'', ''uploads''],
                               FsWrite [''app'', ''uploads'', ''image-1800-7.jpg'']]\<rparr>)"
proof -
  have d: "disk_destination s =
      ([''app'', ''uploads''], s\<lparr>fs_log := fs_log s @ [FsExists [''app'', ''uploads'']]\<rparr>)"
    by (simp add: disk_destination_def assms path_join_def existsSync_def valid_path_def Let_def)
  have f: "fileFilter ex_jpg" by (simp add: fileFilter_def startsWith_def ex_jpg_def)
  show ?thesis
    unfolding multer_disk_def
    apply (simp add: assms f d ex_disk_filename_jpg)
    apply (simp add: ex_jpg_def assms path_join_def valid_path_def fs_put_def
         file_size_limit_def ex_env2_def render_path_def Let_def)
    done
qed


lemma ex_upload_record_png:
  "upload_record ex_env ex_png =
     \<lparr>url = ''/uploads/image-1700-42.png'', publicId = None, originalName = ''cat.png'',
      size_bytes = 3, mimetype = ''image/png'', uploadedAt = 1700\<rparr>"
  by (simp add: upload_record_def ex_disk_filename_png) (simp add: ex_png_def ex_env_def)

lemma ex_upload_record_jpg:
  "upload_record ex_env2 ex_jpg =
     \<lparr>url = ''/uploads/image-1800-7.jpg'', publicId = None, originalName = ''dog.jpg'',
      size_bytes = 4, mimetype = ''image/jpeg'', uploadedAt = 1800\<rparr>"
  by (simp add: upload_record_def ex_disk_filename_jpg) (simp add: ex_jpg_def ex_env2_def)

lemma ex_post_upload_png:
  assumes "file_part rq = Some ex_png" and "imageKey_field rq = Some k" and "k \<noteq> []"
  shows "post_upload ex_env ex_flat rq =
     (Resp 200 (UploadBody ''/uploads/image-1700-42.png'' k),
      \<lparr>dirname = [''app''],
       imageData = js_set empty_object k (upload_record ex_env ex_png),
       nodes = [([''app'', ''uploads'', ''image-1700-42.png''], RegularFile ''PNG''),
                ([''app'', ''uploads''], Directory), ([''app''], Directory)],
       unlink_denied = [],
       json_file = Some (own (js_set empty_object k (upload_record ex_env ex_png))),
       fs_log = [FsExists [''app'', ''uploads''], FsMkdir [''app'', ''uploads''],
                 FsWrite [''app'', ''uploads'', ''image-1700-42.png''], FsSaveJson]\<rparr>)"
proof -
  have nf: "\<not> json_write_fails ex_env" by (simp add: ex_env_def)
  show ?thesis
    unfolding post_upload_def ex_multer_png [OF assms(1)]
    by (simp add: assms(2) upload_handler_accepted [OF assms(3) nf] ex_upload_record_png)
       (simp add: ex_flat_def ex_env_def)
qed

lemma ex_post_upload_jpg:
  assumes "file_part rq = Some ex_jpg" and "imageKey_field rq = Some k" and "k \<noteq> []"
      and "dirname s = [''app'']"
      and "nodes s = [([''app'', ''uploads'', ''image-1700-42.png''], RegularFile ''PNG''),
                      ([''app'', ''uploads''], Directory), ([''app''], Directory)]"
  shows "fst (post_upload ex_env2 s rq) = Resp 200 (UploadBody ''/uploads/image-1800-7.jpg'' k)
       \<and> imageData (snd (post_upload ex_env2 s rq))
            = js_set (imageData s) k (upload_record ex_env2 ex_jpg)
       \<and> json_file (snd (post_upload ex_env2 s rq))
            = Some (own (js_set (imageData s) k (upload_record ex_env2 ex_jpg)))"
proof -
  have nf: "\<not> json_write_fails ex_env2" by (simp add: ex_env2_def)
  show ?thesis
    unfolding post_upload_def ex_multer_jpg [OF assms(1,4,5)]
    by (simp add: assms(2) upload_handler_accepted [OF assms(3) nf] ex_upload_record_jpg)
       (simp add: ex_env2_def)
qed

lemma ex_js_set_proto:
  "js_set \<lparr>own = [], proto = p\<rparr> ''__proto__'' r = \<lparr>own = [], proto = Some r\<rparr>"
  by (simp add: js_set_def)

lemma ex_js_set_hero:
  "js_set empty_object ''hero'' r = \<lparr>own = [(''hero'', r)], proto = None\<rparr>"
  by (simp add: js_set_def empty_object_def is_array_index_def is_digit_def)

lemma ex_flat_hero_eq:
  "ex_flat_hero =
     \<lparr>dirname = [''app''],
      imageData = \<lparr>own = [(''hero'', upload_record ex_env ex_png)], proto = None\<rparr>,
      nodes = [([''app'', ''uploads'', ''image-1700-42.png''], RegularFile ''PNG''),
               ([''app'', ''uploads''], Directory), ([''app''], Directory)],
      unlink_denied = [],
      json_file = Some [(''hero'', upload_record ex_env ex_png)],
      fs_log = [FsExists [''app'', ''uploads''], FsMkdir [''app'', ''uploads''],
                FsWrite [''app'', ''uploads'', ''image-1700-42.png''], FsSaveJson]\<rparr>"
  unfolding ex_flat_hero_def
  using ex_post_upload_png [of ex_rq_hero "''hero''"]
  by (simp add: ex_rq_hero_def ex_js_set_hero)

lemma ex_flat_proto1_eq:
  "ex_flat_proto1 =
     \<lparr>dirname = [''app''],
      imageData = \<lparr>own = [], proto = Some (upload_record ex_env ex_png)\<rparr>,
      nodes = [([''app'', ''uploads'', ''image-1700-42.png''], RegularFile ''PNG''),
               ([''app'', ''uploads''], Directory), ([''app''], Directory)],
      unlink_denied = [],
      json_file = Some [],
      fs_log = [FsExists [''app'', ''uploads''], FsMkdir [''app'', ''uploads''],
                FsWrite [''app'', ''uploads'', ''image-1700-42.png''], FsSaveJson]\<rparr>"
  unfolding ex_flat_proto1_def
  using ex_post_upload_png [of ex_rq_proto_png "''__proto__''"]
  by (simp add: ex_rq_proto_png_def empty_object_def ex_js_set_proto)

lemma ex_cloud_record_png:
  "cloud_record ex_env ex_png =
     \<lparr>url = ''https://cdn.example/a1.png'', publicId = Some ''adriana-photography/a1'',
      originalName = ''cat.png'', size_bytes = 3, mimetype = ''image/png'', uploadedAt = 1700\<rparr>"
  by (simp add: cloud_record_def ex_png_def ex_env_def)

lemma ex_cloud_record_jpg:
  "cloud_record ex_env2 ex_jpg =
     \<lparr>url = ''https://cdn.example/b2.jpg'', publicId = Some ''adriana-photography/b2'',
      originalName = ''dog.jpg'', size_bytes = 4, mimetype = ''image/jpeg'', uploadedAt = 1800\<rparr>"
  by (simp add: cloud_record_def ex_jpg_def ex_env2_def)

lemma ex_cloud_post_png:
  assumes "file_part rq = Some ex_png" and "imageKey_field rq = Some k" and "k \<noteq> []"
  shows "cloud_post_upload ex_env c rq =
     (Resp 200 (UploadDocBody ''https://cdn.example/a1.png'' k ''adriana-photography/a1''
                  (k, cloud_record ex_env ex_png)),
      c\<lparr>collection := findOneAndUpdate k (cloud_record ex_env ex_png) (collection c),
        cloudinary := (''adriana-photography/a1'', ''PNG'')
                        # filter (\<lambda>a. fst a \<noteq> ''adriana-photography/a1'') (cloudinary c),
        svc_log := svc_log c @ [CloudUpload ''cat.png'', DbFindOneAndUpdate k]\<rparr>)"
proof -
  have "cloud_post_upload ex_env c rq =
     (Resp 200 (UploadDocBody ''https://cdn.example/a1.png'' k ''adriana-photography/a1''
                  (k, cloud_record ex_env ex_png)),
      c\<lparr>collection := findOneAndUpdate k (cloud_record ex_env ex_png) (collection c),
        cloudinary := (''adriana-photography/a1'', file_content ex_png)
                        # filter (\<lambda>a. fst a \<noteq> ''adriana-photography/a1'') (cloudinary c),
        svc_log := svc_log c @ [CloudUpload (file_originalname ex_png), DbFindOneAndUpdate k]\<rparr>)"
    by (rule cloud_post_upload_eval [OF assms(1) _ _ _ assms(2,3)])
       (simp_all add: fileFilter_def startsWith_def ex_png_def ex_env_def cloud_file_size_limit_def)
  then show ?thesis by (simp add: ex_png_def)
qed

lemma ex_cloud_post_jpg:
  assumes "file_part rq = Some ex_jpg" and "imageKey_field rq = Some k" and "k \<noteq> []"
  shows "cloud_post_upload ex_env2 c rq =
     (Resp 200 (UploadDocBody ''https://cdn.example/b2.jpg'' k ''adriana-photography/b2''
                  (k, cloud_record ex_env2 ex_jpg)),
      c\<lparr>collection := findOneAndUpdate k (cloud_record ex_env2 ex_jpg) (collection c),
        cloudinary := (''adriana-photography/b2'', ''JPEG'')
                        # filter (\<lambda>a. fst a \<noteq> ''adriana-photography/b2'') (cloudinary c),
        svc_log := svc_log c @ [CloudUpload ''dog.jpg'', DbFindOneAndUpdate k]\<rparr>)"
proof -
  have "cloud_post_upload ex_env2 c rq =
     (Resp 200 (UploadDocBody ''https://cdn.example/b2.jpg'' k ''adriana-photography/b2''
                  (k, cloud_record ex_env2 ex_jpg)),
      c\<lparr>collection := findOneAndUpdate k (cloud_record ex_env2 ex_jpg) (collection c),
        cloudinary := (''adriana-photography/b2'', file_content ex_jpg)
                        # filter (\<lambda>a. fst a \<noteq> ''adriana-photography/b2'') (cloudinary c),
        svc_log := svc_log c @ [CloudUpload (file_originalname ex_jpg), DbFindOneAndUpdate k]\<rparr>)"
    by (rule cloud_post_upload_eval [OF assms(1) _ _ _ assms(2,3)])
       (simp_all add: fileFilter_def startsWith_def ex_jpg_def ex_env2_def cloud_file_size_limit_def)
  then show ?thesis by (simp add: ex_jpg_def)
qed

lemma ex_collection_12:
  "collection ex_cloud_12 = [(''1'', cloud_record ex_env ex_png), (''2'', cloud_record ex_env2 ex_jpg)]"
  unfolding ex_cloud_12_def
  using ex_cloud_post_png [of ex_rq_one "''1''" ex_cloud]
        ex_cloud_post_jpg [of ex_rq_two "''2''" "snd (cloud_post_upload ex_env ex_cloud ex_rq_one)"]
  by (simp add: ex_rq_one_def ex_rq_two_def ex_cloud_def findOneAndUpdate_def)

lemma ex_array_index_keys:
  "is_array_index ''1''" "is_array_index ''2''" "dec_value ''1'' = 1" "dec_value ''2'' = 2"
  "\<not> is_array_index ''hero''" "\<not> is_array_index ''__proto__''"
  by (simp_all add: is_array_index_def is_digit_def dec_value_def digit_val_def)

lemma ex_collection_proto2:
  "collection ex_cloud_proto2 = [(''__proto__'', cloud_record ex_env2 ex_jpg)]"
  unfolding ex_cloud_proto2_def ex_cloud_proto1_def
  using ex_cloud_post_png [of ex_rq_proto_png "''__proto__''" ex_cloud]
        ex_cloud_post_jpg [of ex_rq_proto_jpg "''__proto__''"
                              "snd (cloud_post_upload ex_env ex_cloud ex_rq_proto_png)"]
  by (simp add: ex_rq_proto_png_def ex_rq_proto_jpg_def ex_cloud_def findOneAndUpdate_def)

lemma ex_collection_hero_proto:
  "collection ex_cloud_hero_proto
     = [(''hero'', cloud_record ex_env ex_png), (''__proto__'', cloud_record ex_env2 ex_jpg)]"
  unfolding ex_cloud_hero_proto_def ex_cloud_hero_def
  using ex_cloud_post_png [of ex_rq_hero "''hero''" ex_cloud]
        ex_cloud_post_jpg [of ex_rq_proto_jpg "''__proto__''"
                              "snd (cloud_post_upload ex_env ex_cloud ex_rq_hero)"]
  by (simp add: ex_rq_hero_def ex_rq_proto_jpg_def ex_cloud_def findOneAndUpdate_def)

lemma ex_multer_cloudinary_png:
  assumes "file_part rq = Some ex_png"
  shows "multer_cloudinary ex_env ex_cloud rq = (Inr (Some ex_cfile_png), ex_cloud_png)"
  by (simp add: multer_cloudinary_def assms fileFilter_def startsWith_def ex_png_def ex_env_def
        ex_cloud_def cloud_file_size_limit_def ex_cfile_png_def ex_cloud_png_def Let_def)

lemma ex_delete_target_hero:
  "delete_target ex_flat_locked (upload_record ex_env ex_png)
     = [''app'', ''uploads'', ''image-1700-42.png'']"
  "delete_target ex_flat_hero (upload_record ex_env ex_png)
     = [''app'', ''uploads'', ''image-1700-42.png'']"
  by (simp_all add: delete_target_def ex_flat_locked_def ex_flat_hero_eq ex_upload_record_png
        basename_def path_join_def)

lemma ex_delete_hero:
  "nodes (snd (delete_image ex_env ex_flat_hero ''hero''))
     = [([''app'', ''uploads''], Directory), ([''app''], Directory)]"
proof -
  have g: "js_get (imageData ex_flat_hero) ''hero'' = Obj (upload_record ex_env ex_png)"
    by (simp add: js_get_def ex_flat_hero_eq)
  have x: "existsSync ex_flat_hero [''app'', ''uploads'', ''image-1700-42.png'']"
    by (simp add: existsSync_def valid_path_def ex_flat_hero_eq)
  have u: "unlinkSync ex_flat_hero [''app'', ''uploads'', ''image-1700-42.png'']
      = Inr (ex_flat_hero\<lparr>nodes := [([''app'', ''uploads''], Directory), ([''app''], Directory)]\<rparr>)"
    by (simp add: unlinkSync_def valid_path_def ex_flat_hero_eq fs_remove_def)
  have nf: "\<not> json_write_fails ex_env" by (simp add: ex_env_def)
  show ?thesis
    by (simp add: delete_image_def g truthy_def Let_def ex_delete_target_hero x unlinkSync_log u
          saveImageData_def nf)
qed

subsection \<open>Concrete runs\<close>

text \<open>
  A rejected upload that writes: an image sent without \<open>imageKey\<close> is answered 400, but
  the middleware has written the blob into \<open>uploads\<close> before the handler looked at the key.
\<close>

theorem missing_key_upload_leaves_blob:
  "js_falsy (imageKey_field ex_rq_nokey)
   \<and> fst (post_upload ex_env ex_flat ex_rq_nokey) = Resp 400 (ErrorBody ''Image key is required'')
   \<and> map_of (nodes ex_flat) [''app'', ''uploads'', ''image-1700-42.png''] = None
   \<and> map_of (nodes (snd (post_upload ex_env ex_flat ex_rq_nokey)))
        [''app'', ''uploads'', ''image-1700-42.png''] = Some (RegularFile ''PNG'')"
proof -
  have m: "multer_disk ex_env ex_flat ex_rq_nokey =
     (Inr (Some \<lparr>mf_filename = ''image-1700-42.png'',
                 mf_path = ''/app/uploads/image-1700-42.png'',
                 mf_originalname = ''cat.png'', mf_size = 3, mf_mimetype = ''image/png''\<rparr>),
      ex_flat\<lparr>nodes := [([''app'', ''uploads'', ''image-1700-42.png''], RegularFile ''PNG''),
                         ([''app'', ''uploads''], Directory), ([''app''], Directory)],
               fs_log := [FsExists [''app'', ''uploads''], FsMkdir [''app'', ''uploads''],
                          FsWrite [''app'', ''uploads'', ''image-1700-42.png'']]\<rparr>)"
    by (rule ex_multer_png) (simp add: ex_rq_nokey_def)
  have k: "js_falsy (imageKey_field ex_rq_nokey)"
    by (simp add: js_falsy_def ex_rq_nokey_def)
  have r: "post_upload ex_env ex_flat ex_rq_nokey =
     (Resp 400 (ErrorBody ''Image key is required''),
      ex_flat\<lparr>nodes := [([''app'', ''uploads'', ''image-1700-42.png''], RegularFile ''PNG''),
                         ([''app'', ''uploads''], Directory), ([''app''], Directory)],
               fs_log := [FsExists [''app'', ''uploads''], FsMkdir [''app'', ''uploads''],
                          FsWrite [''app'', ''uploads'', ''image-1700-42.png'']]\<rparr>)"
    unfolding post_upload_def m by (simp add: upload_handler_def k)
  show ?thesis
    unfolding r using k by (simp add: ex_flat_def)
qed

text \<open>
  The theorem on uploads that fail the handler's checks, at the same request and in both
  deployments: the blob is stored, the answer is 400, the metadata is as before.
\<close>

theorem invalid_upload_witness:
  "multer_disk ex_env ex_flat ex_rq_nokey = (Inr (Some ex_file_png), ex_flat_png)
   \<and> js_falsy (imageKey_field ex_rq_nokey)
   \<and> http_status (fst (post_upload ex_env ex_flat ex_rq_nokey)) = 400
   \<and> snd (post_upload ex_env ex_flat ex_rq_nokey) = ex_flat_png
   \<and> imageData ex_flat_png = imageData ex_flat
   \<and> multer_cloudinary ex_env ex_cloud ex_rq_nokey = (Inr (Some ex_cfile_png), ex_cloud_png)
   \<and> http_status (fst (cloud_post_upload ex_env ex_cloud ex_rq_nokey)) = 400
   \<and> snd (cloud_post_upload ex_env ex_cloud ex_rq_nokey) = ex_cloud_png
   \<and> collection ex_cloud_png = collection ex_cloud"
proof -
  have m: "multer_disk ex_env ex_flat ex_rq_nokey = (Inr (Some ex_file_png), ex_flat_png)"
    using ex_multer_png [of ex_rq_nokey]
    by (simp add: ex_rq_nokey_def ex_file_png_def ex_flat_png_def)
  have c: "multer_cloudinary ex_env ex_cloud ex_rq_nokey = (Inr (Some ex_cfile_png), ex_cloud_png)"
    by (rule ex_multer_cloudinary_png) (simp add: ex_rq_nokey_def)
  have k: "js_falsy (imageKey_field ex_rq_nokey)"
    by (simp add: js_falsy_def ex_rq_nokey_def)
  show ?thesis
    using invalid_upload_answers_400_metadata_untouched
            [of ex_env ex_flat ex_rq_nokey "Some ex_file_png" ex_flat_png ex_cloud
                "Some ex_cfile_png" ex_cloud_png]
          m c k
    by simp
qed

text \<open>
  The theorem on failed deletions, at a record whose file may not be removed and at a record
  whose asset Cloudinary refuses to destroy.
\<close>

theorem delete_failure_witness:
  "(map_of (own (imageData ex_flat_locked)) ''hero'' = Some (upload_record ex_env ex_png)
    \<and> existsSync ex_flat_locked (delete_target ex_flat_locked (upload_record ex_env ex_png))
    \<and> unlinkSync ex_flat_locked (delete_target ex_flat_locked (upload_record ex_env ex_png))
        = Inl EACCES
    \<and> fst (delete_image ex_env ex_flat_locked ''hero'') = Unhandled (FsError EACCES)
    \<and> http_status (fst (delete_image ex_env ex_flat_locked ''hero'')) = 500
    \<and> imageData (snd (delete_image ex_env ex_flat_locked ''hero'')) = imageData ex_flat_locked)
   \<and> (map_of (collection ex_cloud_hero) ''hero'' = Some (cloud_record ex_env ex_png)
    \<and> \<not> db_read_fails ex_env_outage
    \<and> \<not> js_falsy (publicId (cloud_record ex_env ex_png))
    \<and> cloudinary_destroy_fails ex_env_outage
    \<and> fst (cloud_delete_image ex_env_outage ex_cloud_hero ''hero'')
        = Resp 500 (ErrorBody ''Failed to delete image'')
    \<and> collection (snd (cloud_delete_image ex_env_outage ex_cloud_hero ''hero''))
        = collection ex_cloud_hero)"
proof -
  have a: "map_of (own (imageData ex_flat_locked)) ''hero'' = Some (upload_record ex_env ex_png)"
    by (simp add: ex_flat_locked_def ex_flat_hero_eq)
  have b: "existsSync ex_flat_locked (delete_target ex_flat_locked (upload_record ex_env ex_png))"
    unfolding ex_delete_target_hero
    by (simp add: existsSync_def valid_path_def ex_flat_locked_def ex_flat_hero_eq)
  have c: "unlinkSync ex_flat_locked (delete_target ex_flat_locked (upload_record ex_env ex_png))
        = Inl EACCES"
    unfolding ex_delete_target_hero
    by (simp add: unlinkSync_def valid_path_def ex_flat_locked_def ex_flat_hero_eq)
  have d: "map_of (collection ex_cloud_hero) ''hero'' = Some (cloud_record ex_env ex_png)"
    unfolding ex_cloud_hero_def
    using ex_cloud_post_png [of ex_rq_hero "''hero''" ex_cloud]
    by (simp add: ex_rq_hero_def ex_cloud_def findOneAndUpdate_def)
  have e: "\<not> db_read_fails ex_env_outage \<and> cloudinary_destroy_fails ex_env_outage"
    by (simp add: ex_env_outage_def ex_env_def)
  have f: "\<not> js_falsy (publicId (cloud_record ex_env ex_png))"
    by (simp add: ex_cloud_record_png js_falsy_def)
  show ?thesis
    using delete_failure_keeps_record
            [of ex_flat_locked "''hero''" "upload_record ex_env ex_png" EACCES ex_env
                ex_cloud_hero "cloud_record ex_env ex_png"]
          delete_failure_keeps_record
            [of ex_flat_locked "''hero''" "upload_record ex_env ex_png" EACCES ex_env_outage
                ex_cloud_hero "cloud_record ex_env ex_png"]
          a b c d e f
    by simp
qed

text \<open>
  The theorem on the paths a delete touches, at the delete of an uploaded image: the one entry
  that changes is its file.
\<close>

theorem delete_unlinks_witness:
  "normal_path (dirname ex_flat_hero)
   \<and> \<not> is_regular_file ex_flat_hero (dirname ex_flat_hero)
   \<and> \<not> is_regular_file ex_flat_hero (dirname ex_flat_hero @ [''uploads''])
   \<and> CHR ''/'' \<notin> set (basename ''/uploads/../../etc/passwd'')
   \<and> map_of (nodes (snd (delete_image ex_env ex_flat_hero ''hero'')))
        [''app'', ''uploads'', ''image-1700-42.png'']
       \<noteq> map_of (nodes ex_flat_hero) [''app'', ''uploads'', ''image-1700-42.png'']
   \<and> js_get (imageData ex_flat_hero) ''hero'' = Obj (upload_record ex_env ex_png)
   \<and> [''app'', ''uploads'', ''image-1700-42.png'']
       = dirname ex_flat_hero @ [''uploads'', basename (url (upload_record ex_env ex_png))]"
proof -
  have a: "normal_path (dirname ex_flat_hero)"
    by (simp add: normal_path_def proper_segment_def ex_flat_hero_eq)
  have b: "\<not> is_regular_file ex_flat_hero (dirname ex_flat_hero)"
    by (simp add: is_regular_file_def ex_flat_hero_eq)
  have c: "\<not> is_regular_file ex_flat_hero (dirname ex_flat_hero @ [''uploads''])"
    by (simp add: is_regular_file_def ex_flat_hero_eq)
  have d: "map_of (nodes (snd (delete_image ex_env ex_flat_hero ''hero'')))
        [''app'', ''uploads'', ''image-1700-42.png'']
       \<noteq> map_of (nodes ex_flat_hero) [''app'', ''uploads'', ''image-1700-42.png'']"
    unfolding ex_delete_hero by (simp add: ex_flat_hero_eq)
  have g: "js_get (imageData ex_flat_hero) ''hero'' = Obj (upload_record ex_env ex_png)"
    by (simp add: js_get_def ex_flat_hero_eq)
  from delete_unlinks_only_uploads_basename
         [OF a b c, of "''/uploads/../../etc/passwd''" ex_env "''hero''"]
  have t: "CHR ''/'' \<notin> set (basename ''/uploads/../../etc/passwd'')"
    and "\<forall>p. map_of (nodes (snd (delete_image ex_env ex_flat_hero ''hero''))) p
                 \<noteq> map_of (nodes ex_flat_hero) p
             \<longrightarrow> (\<exists>r. js_get (imageData ex_flat_hero) ''hero'' = Obj r
                      \<and> p = dirname ex_flat_hero @ [''uploads'', basename (url r)])"
    by blast+
  with d g have "[''app'', ''uploads'', ''image-1700-42.png'']
       = dirname ex_flat_hero @ [''uploads'', basename (url (upload_record ex_env ex_png))]"
    by (metis jsval.inject(4))
  with a b c d g t show ?thesis by blast
qed

text \<open>
  C3. Two accepted uploads under the key \<open>__proto__\<close>: the assignment
  \<open>imageData["__proto__"] = record\<close> replaces the prototype of the object instead of
  creating a property, so the flat-file listing and \<open>imageData.json\<close> stay empty; in the
  durable deployment the document is stored, and the listing, which is built by the same
  assignment, does not show its key.
\<close>

theorem second_upload_under_proto_key_unlisted:
  "fst (post_upload ex_env ex_flat ex_rq_proto_png)
     = Resp 200 (UploadBody ''/uploads/image-1700-42.png'' ''__proto__'')
   \<and> fst (post_upload ex_env2 ex_flat_proto1 ex_rq_proto_jpg)
     = Resp 200 (UploadBody ''/uploads/image-1800-7.jpg'' ''__proto__'')
   \<and> fst (get_images ex_flat_proto2) = Resp 200 (ListBody [])
   \<and> json_file ex_flat_proto2 = Some []
   \<and> http_status (fst (cloud_post_upload ex_env ex_cloud ex_rq_proto_png)) = 200
   \<and> http_status (fst (cloud_post_upload ex_env2 ex_cloud_proto1 ex_rq_proto_jpg)) = 200
   \<and> collection ex_cloud_proto2 = [(''__proto__'', cloud_record ex_env2 ex_jpg)]
   \<and> fst (cloud_get_images ex_env ex_cloud_proto2) = Resp 200 (ListBody [])"
proof -
  have a: "fst (post_upload ex_env ex_flat ex_rq_proto_png)
     = Resp 200 (UploadBody ''/uploads/image-1700-42.png'' ''__proto__'')"
    using ex_post_upload_png [of ex_rq_proto_png "''__proto__''"]
    by (simp add: ex_rq_proto_png_def)
  have b: "fst (post_upload ex_env2 ex_flat_proto1 ex_rq_proto_jpg)
       = Resp 200 (UploadBody ''/uploads/image-1800-7.jpg'' ''__proto__'')
     \<and> imageData (snd (post_upload ex_env2 ex_flat_proto1 ex_rq_proto_jpg))
       = js_set (imageData ex_flat_proto1) ''__proto__'' (upload_record ex_env2 ex_jpg)
     \<and> json_file (snd (post_upload ex_env2 ex_flat_proto1 ex_rq_proto_jpg))
       = Some (own (js_set (imageData ex_flat_proto1) ''__proto__'' (upload_record ex_env2 ex_jpg)))"
    by (rule ex_post_upload_jpg) (simp_all add: ex_rq_proto_jpg_def ex_flat_proto1_eq)
  have c: "js_set (imageData ex_flat_proto1) ''__proto__'' (upload_record ex_env2 ex_jpg)
      = \<lparr>own = [], proto = Some (upload_record ex_env2 ex_jpg)\<rparr>"
    by (simp add: ex_flat_proto1_eq ex_js_set_proto)
  have d: "http_status (fst (cloud_post_upload ex_env ex_cloud ex_rq_proto_png)) = 200"
    using ex_cloud_post_png [of ex_rq_proto_png "''__proto__''" ex_cloud]
    by (simp add: ex_rq_proto_png_def)
  have e: "http_status (fst (cloud_post_upload ex_env2 ex_cloud_proto1 ex_rq_proto_jpg)) = 200"
    using ex_cloud_post_jpg [of ex_rq_proto_jpg "''__proto__''" ex_cloud_proto1]
    by (simp add: ex_rq_proto_jpg_def)
  have l: "own (listing_object [(''__proto__'', cloud_record ex_env2 ex_jpg)]) = []"
    by (simp add: listing_object_def js_set_def empty_object_def)
  have f: "fst (cloud_get_images ex_env ex_cloud_proto2) = Resp 200 (ListBody [])"
    by (simp add: cloud_get_images_def Let_def find_sorted_def ex_collection_proto2 l)
       (simp add: ex_env_def)
  show ?thesis
    using a b d e f by (simp add: ex_flat_proto2_def get_images_def c ex_collection_proto2)
qed

text \<open>
  C5. Starting from the empty store, two accepted uploads under the distinct keys \<open>hero\<close>
  and \<open>__proto__\<close> give a listing of one key, in both deployments.
\<close>

theorem two_keys_uploaded_one_listed:
  "fst (post_upload ex_env ex_flat ex_rq_hero)
     = Resp 200 (UploadBody ''/uploads/image-1700-42.png'' ''hero'')
   \<and> fst (post_upload ex_env2 ex_flat_hero ex_rq_proto_jpg)
     = Resp 200 (UploadBody ''/uploads/image-1800-7.jpg'' ''__proto__'')
   \<and> fst (get_images ex_flat_hero_proto)
     = Resp 200 (ListBody [(''hero'', upload_record ex_env ex_png)])
   \<and> http_status (fst (cloud_post_upload ex_env ex_cloud ex_rq_hero)) = 200
   \<and> http_status (fst (cloud_post_upload ex_env2 ex_cloud_hero ex_rq_proto_jpg)) = 200
   \<and> fst (cloud_get_images ex_env ex_cloud_hero_proto)
     = Resp 200 (ListBody [(''hero'', cloud_record ex_env ex_png)])"
proof -
  have a: "fst (post_upload ex_env ex_flat ex_rq_hero)
     = Resp 200 (UploadBody ''/uploads/image-1700-42.png'' ''hero'')"
    using ex_post_upload_png [of ex_rq_hero "''hero''"] by (simp add: ex_rq_hero_def)
  have b: "fst (post_upload ex_env2 ex_flat_hero ex_rq_proto_jpg)
       = Resp 200 (UploadBody ''/uploads/image-1800-7.jpg'' ''__proto__'')
     \<and> imageData (snd (post_upload ex_env2 ex_flat_hero ex_rq_proto_jpg))
       = js_set (imageData ex_flat_hero) ''__proto__'' (upload_record ex_env2 ex_jpg)
     \<and> json_file (snd (post_upload ex_env2 ex_flat_hero ex_rq_proto_jpg))
       = Some (own (js_set (imageData ex_flat_hero) ''__proto__'' (upload_record ex_env2 ex_jpg)))"
    by (rule ex_post_upload_jpg) (simp_all add: ex_rq_proto_jpg_def ex_flat_hero_eq)
  have c: "js_set (imageData ex_flat_hero) ''__proto__'' (upload_record ex_env2 ex_jpg)
      = \<lparr>own = [(''hero'', upload_record ex_env ex_png)],
         proto = Some (upload_record ex_env2 ex_jpg)\<rparr>"
    by (simp add: ex_flat_hero_eq js_set_def)
  have d: "http_status (fst (cloud_post_upload ex_env ex_cloud ex_rq_hero)) = 200"
    using ex_cloud_post_png [of ex_rq_hero "''hero''" ex_cloud] by (simp add: ex_rq_hero_def)
  have e: "http_status (fst (cloud_post_upload ex_env2 ex_cloud_hero ex_rq_proto_jpg)) = 200"
    using ex_cloud_post_jpg [of ex_rq_proto_jpg "''__proto__''" ex_cloud_hero]
    by (simp add: ex_rq_proto_jpg_def)
  have s: "find_sorted (collection ex_cloud_hero_proto)
      = [(''__proto__'', cloud_record ex_env2 ex_jpg), (''hero'', cloud_record ex_env ex_png)]"
    by (simp add: find_sorted_def ex_collection_hero_proto ex_cloud_record_png ex_cloud_record_jpg)
  have l: "own (listing_object [(''__proto__'', cloud_record ex_env2 ex_jpg),
                                (''hero'', cloud_record ex_env ex_png)])
      = [(''hero'', cloud_record ex_env ex_png)]"
    by (simp add: listing_object_def js_set_def empty_object_def ex_array_index_keys)
  have f: "fst (cloud_get_images ex_env ex_cloud_hero_proto)
     = Resp 200 (ListBody [(''hero'', cloud_record ex_env ex_png)])"
    by (simp add: cloud_get_images_def Let_def s l) (simp add: ex_env_def)
  show ?thesis
    using a b d e f by (simp add: ex_flat_hero_proto_def get_images_def c)
qed

text \<open>
  C8. In the durable deployment the documents are sorted by descending \<open>uploadedAt\<close> and
  then assigned to a plain object, which enumerates array-index keys in ascending numeric
  order first: after an upload under \<open>1\<close> and a later one under \<open>2\<close> the listing shows
  \<open>1\<close> before \<open>2\<close>, the older record first.
\<close>

theorem listing_by_numeric_keys_ascending_time:
  "fst (cloud_post_upload ex_env ex_cloud ex_rq_one)
     = Resp 200 (UploadDocBody ''https://cdn.example/a1.png'' ''1'' ''adriana-photography/a1''
                   (''1'', cloud_record ex_env ex_png))
   \<and> fst (cloud_post_upload ex_env2 (snd (cloud_post_upload ex_env ex_cloud ex_rq_one)) ex_rq_two)
     = Resp 200 (UploadDocBody ''https://cdn.example/b2.jpg'' ''2'' ''adriana-photography/b2''
                   (''2'', cloud_record ex_env2 ex_jpg))
   \<and> fst (cloud_get_images ex_env ex_cloud_12)
     = Resp 200 (ListBody [(''1'', cloud_record ex_env ex_png),
                           (''2'', cloud_record ex_env2 ex_jpg)])
   \<and> map (\<lambda>kv. uploadedAt (snd kv))
         [(''1'', cloud_record ex_env ex_png), (''2'', cloud_record ex_env2 ex_jpg)]
     = [1700, 1800]"
proof -
  have a: "fst (cloud_post_upload ex_env ex_cloud ex_rq_one)
     = Resp 200 (UploadDocBody ''https://cdn.example/a1.png'' ''1'' ''adriana-photography/a1''
                   (''1'', cloud_record ex_env ex_png))"
    using ex_cloud_post_png [of ex_rq_one "''1''" ex_cloud] by (simp add: ex_rq_one_def)
  have b: "fst (cloud_post_upload ex_env2 (snd (cloud_post_upload ex_env ex_cloud ex_rq_one)) ex_rq_two)
     = Resp 200 (UploadDocBody ''https://cdn.example/b2.jpg'' ''2'' ''adriana-photography/b2''
                   (''2'', cloud_record ex_env2 ex_jpg))"
    using ex_cloud_post_jpg [of ex_rq_two "''2''" "snd (cloud_post_upload ex_env ex_cloud ex_rq_one)"]
    by (simp add: ex_rq_two_def)
  have s: "find_sorted (collection ex_cloud_12)
      = [(''2'', cloud_record ex_env2 ex_jpg), (''1'', cloud_record ex_env ex_png)]"
    by (simp add: find_sorted_def ex_collection_12 ex_cloud_record_png ex_cloud_record_jpg)
  have l: "own (listing_object [(''2'', cloud_record ex_env2 ex_jpg), (''1'', cloud_record ex_env ex_png)])
      = [(''1'', cloud_record ex_env ex_png), (''2'', cloud_record ex_env2 ex_jpg)]"
    by (simp add: listing_object_def js_set_def empty_object_def ex_array_index_keys)
  have c: "fst (cloud_get_images ex_env ex_cloud_12)
     = Resp 200 (ListBody [(''1'', cloud_record ex_env ex_png),
                           (''2'', cloud_record ex_env2 ex_jpg)])"
    by (simp add: cloud_get_images_def Let_def s l) (simp add: ex_env_def)
  show ?thesis
    using a b c by (simp add: ex_cloud_record_png ex_cloud_record_jpg)
qed

subsection \<open>What holds for ordinary keys\<close>

lemma map_fst_replace_own: "map fst (replace_own k v kvs) = map fst kvs"
  by (induction kvs) auto

lemma map_of_replace_own:
  "map_of (replace_own k v kvs) k' =
     (if k' = k \<and> map_of kvs k \<noteq> None then Some v else map_of kvs k')"
  by (induction kvs) auto

lemma set_insert_index: "set (insert_index k v kvs) = insert (k, v) (set kvs)"
  by (induction kvs) auto

lemma map_of_insert_index:
  "map_of kvs k = None \<Longrightarrow>
     map_of (insert_index k v kvs) k' = (if k' = k then Some v else map_of kvs k')"
  by (induction kvs) (auto split: if_splits)

lemma distinct_insert_index:
  "distinct (map fst kvs) \<Longrightarrow> map_of kvs k = None \<Longrightarrow>
     distinct (map fst (insert_index k v kvs))"
  by (induction kvs) (auto simp: set_insert_index image_iff split: if_splits)

lemma map_of_None_iff: "(map_of kvs k = None) = (k \<notin> fst ` set kvs)"
  by (simp add: map_of_eq_None_iff)

lemma js_set_lookup:
  assumes "k \<noteq> ''__proto__'' \<or> map_of (own obj) k \<noteq> None"
  shows "map_of (own (js_set obj k v)) k' = (if k' = k then Some v else map_of (own obj) k')"
  using assms
  by (auto simp: js_set_def map_of_replace_own map_of_insert_index map_add_def
           split: option.splits)

lemma js_set_keys:
  assumes "k \<noteq> ''__proto__'' \<or> map_of (own obj) k \<noteq> None"
  shows "fst ` set (own (js_set obj k v)) = insert k (fst ` set (own obj))"
proof -
  have "set (map fst (replace_own k v (own obj))) = fst ` set (own obj)"
    by (simp add: map_fst_replace_own)
  moreover have "map_of (own obj) k \<noteq> None \<Longrightarrow> k \<in> fst ` set (own obj)"
    by (simp add: map_of_None_iff)
  ultimately show ?thesis
    using assms by (auto simp: js_set_def set_insert_index)
qed

lemma js_set_distinct:
  assumes "distinct (map fst (own obj))"
  shows "distinct (map fst (own (js_set obj k v)))"
  using assms
  by (auto simp: js_set_def map_fst_replace_own distinct_insert_index map_of_None_iff)

lemma findOneAndUpdate_lookup:
  "map_of (findOneAndUpdate k d coll) k' = (if k' = k then Some d else map_of coll k')"
  by (auto simp: findOneAndUpdate_def map_of_replace_own map_add_def split: option.splits)

lemma findOneAndUpdate_distinct:
  "distinct (map fst coll) \<Longrightarrow> distinct (map fst (findOneAndUpdate k d coll))"
  by (auto simp: findOneAndUpdate_def map_fst_replace_own map_of_None_iff)


text \<open>
  Lookup and delete by key, where no inherited name is involved: the durable deployment for
  every key, the flat-file one for keys that \<open>Object.prototype\<close> does not define.
\<close>

lemma get_image_plain_key:
  assumes "proto (imageData s) = None" and "key \<notin> set object_prototype_names"
  shows "get_image s key =
           (case map_of (own (imageData s)) key of
              Some r \<Rightarrow> (Resp 200 (ValueBody (Obj r)), s)
            | None \<Rightarrow> (Resp 404 (ErrorBody ''Image not found''), s))"
  using assms
  by (auto simp: get_image_def js_get_def object_prototype_get_def truthy_def
           split: option.splits)

lemma cloud_get_image_found_iff:
  assumes "\<not> db_read_fails e"
  shows "fst (cloud_get_image e c key) =
           (case map_of (collection c) key of
              Some d \<Rightarrow> Resp 200 (ValueBody (Obj d))
            | None \<Rightarrow> Resp 404 (ErrorBody ''Image not found''))"
  using assms by (simp add: cloud_get_image_def Let_def split: option.splits)

lemma delete_image_plain_unknown_key:
  assumes "proto (imageData s) = None" and "key \<notin> set object_prototype_names"
      and "map_of (own (imageData s)) key = None"
  shows "delete_image e s key = (Resp 404 (ErrorBody ''Image not found''), s)"
  using assms
  by (simp add: delete_image_def js_get_def object_prototype_get_def truthy_def)

lemma cloud_delete_unknown_key:
  assumes "\<not> db_read_fails e" and "map_of (collection c) key = None"
  shows "cloud_delete_image e c key =
           (Resp 404 (ErrorBody ''Image not found''), c\<lparr>svc_log := svc_log c @ [DbFindOne key]\<rparr>)"
  using assms by (simp add: cloud_delete_image_def Let_def)

text \<open>
  Two accepted uploads under one key leave one record, that of the second upload; in the
  flat-file deployment for every key but a fresh \<open>__proto__\<close>.
\<close>

lemma upload_twice_last_write_wins:
  assumes "fst (post_upload e1 s rq1) = Resp 200 b1"
      and "fst (post_upload e2 (snd (post_upload e1 s rq1)) rq2) = Resp 200 b2"
      and "imageKey_field rq1 = Some k" and "imageKey_field rq2 = Some k"
      and "file_part rq2 = Some f2"
      and "k \<noteq> ''__proto__'' \<or> map_of (own (imageData s)) k \<noteq> None"
      and "distinct (map fst (own (imageData s)))"
  shows "map_of (own (imageData (snd (post_upload e2 (snd (post_upload e1 s rq1)) rq2)))) k
           = Some (upload_record e2 f2)
       \<and> distinct (map fst (own (imageData (snd (post_upload e2 (snd (post_upload e1 s rq1)) rq2)))))
       \<and> fst (get_images (snd (post_upload e2 (snd (post_upload e1 s rq1)) rq2)))
           = Resp 200 (ListBody (own (imageData (snd (post_upload e2 (snd (post_upload e1 s rq1)) rq2)))))"
proof -
  let ?s1 = "snd (post_upload e1 s rq1)"
  let ?s2 = "snd (post_upload e2 ?s1 rq2)"
  from post_upload_accepted [OF assms(1)] assms(3)
  obtain f1 where s1: "imageData ?s1 = js_set (imageData s) k (upload_record e1 f1)" by auto
  from post_upload_accepted [OF assms(2)] assms(4,5)
  have s2: "imageData ?s2 = js_set (imageData ?s1) k (upload_record e2 f2)" by auto
  have own1: "k \<noteq> ''__proto__'' \<or> map_of (own (imageData ?s1)) k \<noteq> None"
    using assms(6) by (auto simp: s1 js_set_lookup)
  have "map_of (own (imageData ?s2)) k = Some (upload_record e2 f2)"
    unfolding s2 using js_set_lookup [OF own1] by simp
  moreover have "distinct (map fst (own (imageData ?s2)))"
    unfolding s2 s1 by (intro js_set_distinct assms(7))
  ultimately show ?thesis by (simp add: get_images_def)
qed

lemma cloud_upload_twice_last_write_wins:
  assumes "fst (cloud_post_upload e1 c rq1) = Resp 200 b1"
      and "fst (cloud_post_upload e2 (snd (cloud_post_upload e1 c rq1)) rq2) = Resp 200 b2"
      and "imageKey_field rq1 = Some k" and "imageKey_field rq2 = Some k"
      and "file_part rq2 = Some f2"
      and "distinct (map fst (collection c))"
  shows "map_of (collection (snd (cloud_post_upload e2 (snd (cloud_post_upload e1 c rq1)) rq2))) k
           = Some (cloud_record e2 f2)
       \<and> distinct (map fst (collection
             (snd (cloud_post_upload e2 (snd (cloud_post_upload e1 c rq1)) rq2))))"
proof -
  let ?c1 = "snd (cloud_post_upload e1 c rq1)"
  let ?c2 = "snd (cloud_post_upload e2 ?c1 rq2)"
  from cloud_post_upload_accepted [OF assms(1)] assms(3)
  obtain f1 where c1: "collection ?c1 = findOneAndUpdate k (cloud_record e1 f1) (collection c)"
    by auto
  from cloud_post_upload_accepted [OF assms(2)] assms(4,5)
  have c2: "collection ?c2 = findOneAndUpdate k (cloud_record e2 f2) (collection ?c1)" by auto
  show ?thesis
    unfolding c2 c1
    by (simp add: findOneAndUpdate_lookup findOneAndUpdate_distinct assms(6))
qed


text \<open>
  For keys that are neither array indices nor \<open>__proto__\<close> the durable listing keeps the
  order of the query, descending \<open>uploadedAt\<close>.
\<close>

lemma image_record_eta:
  "\<lparr>url = url r, publicId = publicId r, originalName = originalName r,
    size_bytes = size_bytes r, mimetype = mimetype r, uploadedAt = uploadedAt r\<rparr> = r"
  by (cases r) simp

lemma js_set_plain_new:
  assumes "plain_key k" and "k \<notin> fst ` set (own obj)"
  shows "own (js_set obj k v) = own obj @ [(k, v)]"
  using assms by (auto simp: js_set_def plain_key_def map_of_None_iff split: if_splits)

lemma listing_fold_plain:
  assumes "distinct (map fst xs)" and "list_all (\<lambda>img. plain_key (fst img)) xs"
      and "fst ` set xs \<inter> fst ` set (own obj) = {}"
  shows "own (foldl (\<lambda>imageData img.
              js_set imageData (fst img)
                \<lparr>url = url (snd img), publicId = publicId (snd img),
                 originalName = originalName (snd img), size_bytes = size_bytes (snd img),
                 mimetype = mimetype (snd img), uploadedAt = uploadedAt (snd img)\<rparr>)
           obj xs) = own obj @ xs"
  using assms
proof (induction xs arbitrary: obj)
  case Nil
  then show ?case by simp
next
  case (Cons x xs)
  let ?obj = "js_set obj (fst x) (snd x)"
  have new: "fst x \<notin> fst ` set (own obj)" using Cons.prems(3) by auto
  have pk: "plain_key (fst x)" using Cons.prems(2) by simp
  have o: "own ?obj = own obj @ [x]"
    using js_set_plain_new [OF pk new, of "snd x"] by simp
  have disj: "fst ` set xs \<inter> fst ` set (own ?obj) = {}"
    using Cons.prems(1,3) by (auto simp: o)
  have "own (foldl (\<lambda>imageData img.
              js_set imageData (fst img)
                \<lparr>url = url (snd img), publicId = publicId (snd img),
                 originalName = originalName (snd img), size_bytes = size_bytes (snd img),
                 mimetype = mimetype (snd img), uploadedAt = uploadedAt (snd img)\<rparr>)
           ?obj xs) = own ?obj @ xs"
    using Cons.IH [of ?obj] Cons.prems(1,2) disj by (simp add: image_record_eta)
  then show ?case by (simp add: o image_record_eta)
qed

lemma listing_object_plain:
  assumes "distinct (map fst xs)" and "list_all (\<lambda>img. plain_key (fst img)) xs"
  shows "own (listing_object xs) = xs"
  using listing_fold_plain [OF assms, of empty_object]
  by (simp add: listing_object_def empty_object_def)

lemma find_sorted_descending:
  "sorted_wrt (\<lambda>a b. uploadedAt (snd b) \<le> uploadedAt (snd a)) (find_sorted coll)"
proof -
  have "sorted (map (\<lambda>img. - int (uploadedAt (snd img))) (find_sorted coll))"
    unfolding find_sorted_def by (rule sorted_sort_key)
  then show ?thesis by (simp add: sorted_map)
qed

lemma find_sorted_keys:
  "distinct (map fst coll) \<Longrightarrow> distinct (map fst (find_sorted coll))"
  "list_all P coll \<Longrightarrow> list_all P (find_sorted coll)"
proof -
  have s: "set (find_sorted coll) = set coll" by (simp only: find_sorted_def set_sort)
  have d: "distinct (find_sorted coll) = distinct coll"
    by (simp only: find_sorted_def distinct_sort)
  show "distinct (map fst coll) \<Longrightarrow> distinct (map fst (find_sorted coll))"
    by (simp add: distinct_map s d)
  show "list_all P coll \<Longrightarrow> list_all P (find_sorted coll)"
    by (simp add: list_all_iff s)
qed

lemma cloud_listing_descending_for_plain_keys:
  assumes "\<not> db_read_fails e" and "distinct (map fst (collection c))"
      and "list_all (\<lambda>img. plain_key (fst img)) (collection c)"
  shows "fst (cloud_get_images e c) = Resp 200 (ListBody (find_sorted (collection c)))
       \<and> sorted_wrt (\<lambda>a b. uploadedAt (snd b) \<le> uploadedAt (snd a)) (find_sorted (collection c))"
  using assms
  by (simp add: cloud_get_images_def Let_def find_sorted_descending
        listing_object_plain [OF find_sorted_keys(1) find_sorted_keys(2)])

text \<open>
  Round trip: after any number of accepted uploads under pairwise distinct keys, none of them
  \<open>__proto__\<close>, into an empty store, the listing has one entry per upload, and the entry
  under each key is the record of that upload.
\<close>

lemma accepted_Resp: "accepted r \<Longrightarrow> \<exists>b. r = Resp 200 b"
  by (cases r) (auto simp: accepted_def)

lemma run_uploads_invariant:
  assumes "run_uploads xs s = (rs, s')" and "list_all accepted rs"
      and "distinct (map (\<lambda>x. imageKey_field (snd x)) xs)"
      and "list_all (\<lambda>x. imageKey_field (snd x) \<noteq> Some ''__proto__'') xs"
      and "distinct (map fst (own (imageData s)))"
      and "\<forall>x \<in> set xs. \<forall>k. imageKey_field (snd x) = Some k \<longrightarrow> k \<notin> fst ` set (own (imageData s))"
  shows "distinct (map fst (own (imageData s')))
       \<and> length (own (imageData s')) = length (own (imageData s)) + length xs
       \<and> (\<forall>k. k \<in> fst ` set (own (imageData s))
              \<longrightarrow> map_of (own (imageData s')) k = map_of (own (imageData s)) k)
       \<and> (\<forall>x \<in> set xs. \<exists>k f. imageKey_field (snd x) = Some k \<and> file_part (snd x) = Some f
              \<and> map_of (own (imageData s')) k = Some (upload_record (fst x) f))"
  using assms
proof (induction xs arbitrary: s rs s')
  case Nil
  then show ?case by simp
next
  case (Cons x xs)
  obtain r s1 where p: "post_upload (fst x) s (snd x) = (r, s1)"
    by (cases "post_upload (fst x) s (snd x)")
  obtain rs1 s2 where q: "run_uploads xs s1 = (rs1, s2)"
    by (cases "run_uploads xs s1")
  from Cons.prems(1) p q have rs: "rs = r # rs1" and s': "s' = s2" by auto
  from Cons.prems(2) rs have acc: "accepted r" "list_all accepted rs1" by auto
  from accepted_Resp [OF acc(1)] p obtain b where "fst (post_upload (fst x) s (snd x)) = Resp 200 b"
    by auto
  from post_upload_accepted [OF this] p
  obtain f k where fk: "file_part (snd x) = Some f" "imageKey_field (snd x) = Some k" "k \<noteq> []"
    and s1: "imageData s1 = js_set (imageData s) k (upload_record (fst x) f)"
    by auto
  have kp: "k \<noteq> ''__proto__''" using Cons.prems(4) fk(2) by auto
  have knew: "k \<notin> fst ` set (own (imageData s))" using Cons.prems(6) fk(2) by auto
  have look: "\<And>k'. map_of (own (imageData s1)) k'
                 = (if k' = k then Some (upload_record (fst x) f) else map_of (own (imageData s)) k')"
    unfolding s1 using js_set_lookup [of k "imageData s"] kp by simp
  have keys1: "fst ` set (own (imageData s1)) = insert k (fst ` set (own (imageData s)))"
    unfolding s1 using js_set_keys [of k "imageData s"] kp by simp
  have d1: "distinct (map fst (own (imageData s1)))"
    unfolding s1 by (rule js_set_distinct [OF Cons.prems(5)])
  have len1: "length (own (imageData s1)) = Suc (length (own (imageData s)))"
  proof -
    have "card (fst ` set (own (imageData s1))) = Suc (card (fst ` set (own (imageData s))))"
      unfolding keys1 using knew by simp
    moreover have "card (fst ` set (own (imageData s1))) = length (own (imageData s1))"
      using d1 distinct_card [of "map fst (own (imageData s1))"] by simp
    moreover have "card (fst ` set (own (imageData s))) = length (own (imageData s))"
      using Cons.prems(5) distinct_card [of "map fst (own (imageData s))"] by simp
    ultimately show ?thesis by simp
  qed
  have fresh: "\<forall>y \<in> set xs. \<forall>k'. imageKey_field (snd y) = Some k'
                 \<longrightarrow> k' \<notin> fst ` set (own (imageData s1))"
  proof (intro ballI allI impI)
    fix y k' assume y: "y \<in> set xs" and k': "imageKey_field (snd y) = Some k'"
    have "k' \<notin> fst ` set (own (imageData s))" using Cons.prems(6) y k' by auto
    moreover have "k' \<noteq> k" using Cons.prems(3) y k' fk(2) by (auto simp: image_iff)
    ultimately show "k' \<notin> fst ` set (own (imageData s1))" by (simp add: keys1)
  qed
  have d3: "distinct (map (\<lambda>x. imageKey_field (snd x)) xs)" using Cons.prems(3) by simp
  have p4: "list_all (\<lambda>x. imageKey_field (snd x) \<noteq> Some ''__proto__'') xs"
    using Cons.prems(4) by simp
  note ih = Cons.IH [OF q acc(2) d3 p4 d1 fresh]
  have keep: "\<And>k'. k' \<in> fst ` set (own (imageData s1))
                \<Longrightarrow> map_of (own (imageData s2)) k' = map_of (own (imageData s1)) k'"
    using ih by blast
  have "map_of (own (imageData s2)) k = Some (upload_record (fst x) f)"
    using keep [of k] by (simp add: keys1 look)
  moreover have "\<forall>k'. k' \<in> fst ` set (own (imageData s))
              \<longrightarrow> map_of (own (imageData s2)) k' = map_of (own (imageData s)) k'"
    using keep knew by (auto simp: keys1 look)
  moreover have "\<exists>k f. imageKey_field (snd x) = Some k \<and> file_part (snd x) = Some f
              \<and> map_of (own (imageData s2)) k = Some (upload_record (fst x) f)"
    using fk calculation(1) by blast
  ultimately show ?case
    using ih unfolding s' by (simp add: len1 del: map_of_eq_Some_iff)
qed

lemma run_uploads_round_trip:
  assumes "run_uploads xs s = (rs, s')" and "list_all accepted rs"
      and "distinct (map (\<lambda>x. imageKey_field (snd x)) xs)"
      and "list_all (\<lambda>x. imageKey_field (snd x) \<noteq> Some ''__proto__'') xs"
      and "own (imageData s) = []"
  shows "fst (get_images s') = Resp 200 (ListBody (own (imageData s')))
       \<and> length (own (imageData s')) = length xs
       \<and> distinct (map fst (own (imageData s')))
       \<and> (\<forall>x \<in> set xs. \<exists>k f. imageKey_field (snd x) = Some k \<and> file_part (snd x) = Some f
              \<and> map_of (own (imageData s')) k = Some (upload_record (fst x) f))"
  using run_uploads_invariant [OF assms(1-4)] assms(5)
  by (simp add: get_images_def del: map_of_eq_Some_iff)


lemma keyed_insert_length:
  assumes "distinct (map fst ys)" and "distinct (map fst zs)"
      and "fst ` set zs = insert k (fst ` set ys)" and "k \<notin> fst ` set ys"
  shows "length zs = Suc (length ys)"
proof -
  have "card (fst ` set zs) = Suc (card (fst ` set ys))"
    unfolding assms(3) using assms(4) by simp
  moreover have "card (fst ` set zs) = length zs"
    using assms(2) distinct_card [of "map fst zs"] by simp
  moreover have "card (fst ` set ys) = length ys"
    using assms(1) distinct_card [of "map fst ys"] by simp
  ultimately show ?thesis by simp
qed

lemma findOneAndUpdate_keys:
  "fst ` set (findOneAndUpdate k d coll) = insert k (fst ` set coll)"
proof -
  have "set (map fst (replace_own k d coll)) = fst ` set coll"
    by (simp add: map_fst_replace_own)
  moreover have "map_of coll k \<noteq> None \<Longrightarrow> k \<in> fst ` set coll"
    by (simp add: map_of_None_iff)
  ultimately show ?thesis by (auto simp: findOneAndUpdate_def)
qed

lemma cloud_run_uploads_invariant:
  assumes "cloud_run_uploads xs c = (rs, c')" and "list_all accepted rs"
      and "distinct (map (\<lambda>x. imageKey_field (snd x)) xs)"
      and "distinct (map fst (collection c))"
      and "\<forall>x \<in> set xs. \<forall>k. imageKey_field (snd x) = Some k \<longrightarrow> k \<notin> fst ` set (collection c)"
  shows "distinct (map fst (collection c'))
       \<and> length (collection c') = length (collection c) + length xs
       \<and> fst ` set (collection c')
           = fst ` set (collection c) \<union> {k. Some k \<in> (\<lambda>x. imageKey_field (snd x)) ` set xs}
       \<and> (\<forall>k. k \<in> fst ` set (collection c)
              \<longrightarrow> map_of (collection c') k = map_of (collection c) k)
       \<and> (\<forall>x \<in> set xs. \<exists>k f. imageKey_field (snd x) = Some k \<and> file_part (snd x) = Some f
              \<and> map_of (collection c') k = Some (cloud_record (fst x) f))"
  using assms
proof (induction xs arbitrary: c rs c')
  case Nil
  then show ?case by simp
next
  case (Cons x xs)
  obtain r c1 where p: "cloud_post_upload (fst x) c (snd x) = (r, c1)"
    by (cases "cloud_post_upload (fst x) c (snd x)")
  obtain rs1 c2 where q: "cloud_run_uploads xs c1 = (rs1, c2)"
    by (cases "cloud_run_uploads xs c1")
  from Cons.prems(1) p q have rs: "rs = r # rs1" and c': "c' = c2" by auto
  from Cons.prems(2) rs have acc: "accepted r" "list_all accepted rs1" by auto
  from accepted_Resp [OF acc(1)] p
  obtain b where "fst (cloud_post_upload (fst x) c (snd x)) = Resp 200 b" by auto
  from cloud_post_upload_accepted [OF this] p
  obtain f k where fk: "file_part (snd x) = Some f" "imageKey_field (snd x) = Some k"
    and c1: "collection c1 = findOneAndUpdate k (cloud_record (fst x) f) (collection c)"
    by auto
  have knew: "k \<notin> fst ` set (collection c)" using Cons.prems(5) fk(2) by auto
  have look: "\<And>k'. map_of (collection c1) k'
                 = (if k' = k then Some (cloud_record (fst x) f) else map_of (collection c) k')"
    unfolding c1 by (rule findOneAndUpdate_lookup)
  have keys1: "fst ` set (collection c1) = insert k (fst ` set (collection c))"
    unfolding c1 by (rule findOneAndUpdate_keys)
  have d1: "distinct (map fst (collection c1))"
    unfolding c1 by (rule findOneAndUpdate_distinct [OF Cons.prems(4)])
  have len1: "length (collection c1) = Suc (length (collection c))"
    by (rule keyed_insert_length [OF Cons.prems(4) d1 keys1 knew])
  have fresh: "\<forall>y \<in> set xs. \<forall>k'. imageKey_field (snd y) = Some k'
                 \<longrightarrow> k' \<notin> fst ` set (collection c1)"
  proof (intro ballI allI impI)
    fix y k' assume y: "y \<in> set xs" and k': "imageKey_field (snd y) = Some k'"
    have "k' \<notin> fst ` set (collection c)" using Cons.prems(5) y k' by auto
    moreover have "k' \<noteq> k" using Cons.prems(3) y k' fk(2) by (auto simp: image_iff)
    ultimately show "k' \<notin> fst ` set (collection c1)" by (simp add: keys1)
  qed
  have d3: "distinct (map (\<lambda>x. imageKey_field (snd x)) xs)" using Cons.prems(3) by simp
  note ih = Cons.IH [OF q acc(2) d3 d1 fresh]
  have keep: "\<And>k'. k' \<in> fst ` set (collection c1)
                \<Longrightarrow> map_of (collection c2) k' = map_of (collection c1) k'"
    using ih by blast
  have here: "map_of (collection c2) k = Some (cloud_record (fst x) f)"
    using keep [of k] by (simp add: keys1 look)
  have old: "\<forall>k'. k' \<in> fst ` set (collection c)
              \<longrightarrow> map_of (collection c2) k' = map_of (collection c) k'"
    using keep knew by (auto simp: keys1 look)
  have first: "\<exists>k f. imageKey_field (snd x) = Some k \<and> file_part (snd x) = Some f
              \<and> map_of (collection c2) k = Some (cloud_record (fst x) f)"
    using fk here by blast
  have keys2: "fst ` set (collection c2)
      = fst ` set (collection c) \<union> {k. Some k \<in> (\<lambda>x. imageKey_field (snd x)) ` set (x # xs)}"
    using ih fk(2) by (auto simp: keys1)
  show ?case
    using ih old first keys2 unfolding c' by (simp add: len1 del: map_of_eq_Some_iff)
qed

lemma listing_fold_lookup:
  assumes "distinct (map fst xs)" and "''__proto__'' \<notin> fst ` set xs"
      and "distinct (map fst (own obj))" and "fst ` set xs \<inter> fst ` set (own obj) = {}"
  shows "distinct (map fst (own (foldl (\<lambda>imageData img. js_set imageData (fst img) (snd img)) obj xs)))
       \<and> length (own (foldl (\<lambda>imageData img. js_set imageData (fst img) (snd img)) obj xs))
           = length (own obj) + length xs
       \<and> (\<forall>k. map_of (own (foldl (\<lambda>imageData img. js_set imageData (fst img) (snd img)) obj xs)) k
              = (if k \<in> fst ` set xs then map_of xs k else map_of (own obj) k))"
  using assms
proof (induction xs arbitrary: obj)
  case Nil
  then show ?case by simp
next
  case (Cons x xs)
  let ?obj = "js_set obj (fst x) (snd x)"
  have kp: "fst x \<noteq> ''__proto__''" using Cons.prems(2) by auto
  have knew: "fst x \<notin> fst ` set (own obj)" using Cons.prems(4) by auto
  have look: "\<And>k'. map_of (own ?obj) k' = (if k' = fst x then Some (snd x) else map_of (own obj) k')"
    using js_set_lookup [of "fst x" obj] kp by simp
  have keys1: "fst ` set (own ?obj) = insert (fst x) (fst ` set (own obj))"
    using js_set_keys [of "fst x" obj] kp by simp
  have d1: "distinct (map fst (own ?obj))" by (rule js_set_distinct [OF Cons.prems(3)])
  have len1: "length (own ?obj) = Suc (length (own obj))"
    by (rule keyed_insert_length [OF Cons.prems(3) d1 keys1 knew])
  have disj: "fst ` set xs \<inter> fst ` set (own ?obj) = {}"
    using Cons.prems(1,4) by (auto simp: keys1)
  have dx: "distinct (map fst xs)" and px: "''__proto__'' \<notin> fst ` set xs"
    using Cons.prems(1,2) by auto
  note ih = Cons.IH [OF dx px d1 disj]
  have nx: "fst x \<notin> fst ` set xs" using Cons.prems(1) by (auto simp: image_iff)
  show ?case
    using ih nx by (auto simp: len1 look image_iff simp del: map_of_eq_Some_iff)
qed


lemma cloud_run_uploads_round_trip:
  assumes "cloud_run_uploads xs c = (rs, c')" and "list_all accepted rs"
      and "distinct (map (\<lambda>x. imageKey_field (snd x)) xs)"
      and "list_all (\<lambda>x. imageKey_field (snd x) \<noteq> Some ''__proto__'') xs"
      and "collection c = []" and "\<not> db_read_fails e"
  shows "\<exists>listing. fst (cloud_get_images e c') = Resp 200 (ListBody listing)
           \<and> length listing = length xs \<and> distinct (map fst listing)
           \<and> (\<forall>x \<in> set xs. \<exists>k f. imageKey_field (snd x) = Some k \<and> file_part (snd x) = Some f
                  \<and> map_of listing k = Some (cloud_record (fst x) f))"
proof -
  let ?coll = "collection c'"
  let ?sorted = "find_sorted ?coll"
  let ?listing = "own (listing_object ?sorted)"
  have inv: "distinct (map fst ?coll)" "length ?coll = length xs"
      "fst ` set ?coll = {k. Some k \<in> (\<lambda>x. imageKey_field (snd x)) ` set xs}"
      "\<forall>x \<in> set xs. \<exists>k f. imageKey_field (snd x) = Some k \<and> file_part (snd x) = Some f
              \<and> map_of ?coll k = Some (cloud_record (fst x) f)"
    using cloud_run_uploads_invariant [OF assms(1-3)] assms(5)
    by (simp_all del: map_of_eq_Some_iff)
  have np: "''__proto__'' \<notin> fst ` set ?coll"
    unfolding inv(3) using assms(4) by (auto simp: list_all_iff)
  have ss: "set ?sorted = set ?coll" by (simp only: find_sorted_def set_sort)
  have ls: "length ?sorted = length ?coll" by (simp only: find_sorted_def length_sort)
  have ds: "distinct (map fst ?sorted)" by (rule find_sorted_keys(1) [OF inv(1)])
  have ms: "map_of ?sorted = map_of ?coll"
    using map_of_inject_set [OF ds inv(1)] ss by simp
  have lo: "listing_object ?sorted
      = foldl (\<lambda>imageData img. js_set imageData (fst img) (snd img)) empty_object ?sorted"
    by (simp add: listing_object_def image_record_eta)
  have fl: "distinct (map fst ?listing)" "length ?listing = length ?sorted"
      "\<forall>k. map_of ?listing k = (if k \<in> fst ` set ?sorted then map_of ?sorted k else None)"
    using listing_fold_lookup [of ?sorted empty_object] ds np ss
    unfolding lo by (simp_all add: empty_object_def del: map_of_eq_Some_iff)
  have lk: "map_of ?listing k = map_of ?coll k" for k
  proof (cases "k \<in> fst ` set ?coll")
    case True
    then show ?thesis using fl(3) ss ms by simp
  next
    case False
    then have "map_of ?coll k = None" by (simp add: map_of_None_iff)
    with False show ?thesis using fl(3) ss by simp
  qed
  have r: "fst (cloud_get_images e c') = Resp 200 (ListBody ?listing)"
    using assms(6) by (simp add: cloud_get_images_def Let_def)
  show ?thesis
    using r fl(1,2) ls inv(2,4) lk
    by (intro exI [of _ ?listing]) (simp del: map_of_eq_Some_iff)
qed

end
